theory Spec2Isabelle
  imports Complex_Main "HOL-Library.Word"
begin

section \<open>Noise Alert: a shallow embedding of \<^verbatim>\<open>noise_alert.py\<close>\<close>

text \<open>
  Conventions of the embedding.
  \<^item> A float is a \<open>pyfloat\<close>: a finite value, an infinity or NaN. Comparisons, \<^verbatim>\<open>min\<close>,
    \<^verbatim>\<open>max\<close>, \<^verbatim>\<open>int\<close> and \<^verbatim>\<open>math.floor\<close> are exact on doubles and are modelled as such.
  \<^item> In the level and calibration computations the arithmetic on finite floats is taken
    without rounding, over \<^typ>\<open>real\<close>; arithmetic on NaN or an infinity is not followed
    and is marked \<open>NotFinite\<close> where the program would do it.
  \<^item> In tone synthesis a rounding error decides the sign of a sine near a zero crossing
    and the floor near a jump of the sawtooth, so nothing is assumed there about the
    results of \<^verbatim>\<open>+\<close>, \<^verbatim>\<open>-\<close>, \<^verbatim>\<open>*\<close>, \<^verbatim>\<open>/\<close>, \<^verbatim>\<open>math.sin\<close> and of the conversion of
    integers to floats: they are the operations of a platform \<open>fpu\<close>, a parameter of the
    model.
  \<^item> A Python \<^verbatim>\<open>str\<close> is a list of code points (\<^typ>\<open>nat\<close>), so that \<^verbatim>\<open>len\<close> is
    \<^const>\<open>length\<close>. Literal texts of the program (dialog and JSON messages) are kept as
    Isabelle strings.
  \<^item> A call that can raise returns \<open>py_error + 'a\<close>, \<open>Inl\<close> being the exception.
  \<^item> Results of the audio devices, of Flask and of the speech engine are inputs of the model.
\<close>

subsection \<open>Exceptions\<close>

text \<open>
  \<open>LibraryError\<close> is an exception raised inside PyAudio or Flask, with its text.
  \<open>NotFinite\<close> is no exception of Python: it marks arithmetic on NaN or on an infinity.
\<close>

datatype py_error =
    ZeroDivisionError
  | ValueError
  | StructError
  | AttributeError
  | OverflowError
  | LibraryError string
  | NotFinite

type_synonym pystr = "nat list"

subsection \<open>SharedState (lines 119--171)\<close>

record tts_engine =
  engine_rate :: int
  engine_volume :: real

record cfg =
  cfg_thresh :: "real option"
  cfg_web_port :: "int option"

record shared_state =
  threshold :: real
  is_monitoring :: bool
  current_db :: real
  web_server_enabled :: bool
  web_server_port :: int
  web_start_requested :: bool
  web_stop_requested :: bool
  current_device :: int
  tts_queue :: "pystr list"
  tts_engine :: "tts_engine option"

text \<open>
  \<^verbatim>\<open>SharedState.__init__\<close>. The second argument is the outcome of \<^verbatim>\<open>pyttsx3.init()\<close>
  and of the two \<^verbatim>\<open>setProperty\<close> calls: \<open>Some e\<close> when one of them raised.
\<close>

definition init_shared_state :: "cfg \<Rightarrow> py_error option \<Rightarrow> shared_state" where
  "init_shared_state c tts_failure =
     \<lparr> threshold = (case cfg_thresh c of None \<Rightarrow> -30 | Some v \<Rightarrow> v),
       is_monitoring = False,
       current_db = -100,
       web_server_enabled = False,
       web_server_port = (case cfg_web_port c of None \<Rightarrow> 8080 | Some p \<Rightarrow> p),
       web_start_requested = False,
       web_stop_requested = False,
       current_device = 0,
       tts_queue = [],
       tts_engine = (case tts_failure of
                       None \<Rightarrow> Some \<lparr> engine_rate = 150, engine_volume = 9 / 10 \<rparr>
                     | Some e \<Rightarrow> None) \<rparr>"

definition update_threshold :: "real \<Rightarrow> shared_state \<Rightarrow> shared_state" where
  "update_threshold v s = s\<lparr> threshold := v \<rparr>"

definition update_monitoring :: "bool \<Rightarrow> shared_state \<Rightarrow> shared_state" where
  "update_monitoring b s = s\<lparr> is_monitoring := b \<rparr>"

definition update_current_db :: "real \<Rightarrow> shared_state \<Rightarrow> shared_state" where
  "update_current_db v s = s\<lparr> current_db := v \<rparr>"

definition get_state :: "shared_state \<Rightarrow> real \<times> bool \<times> real" where
  "get_state s = (threshold s, is_monitoring s, current_db s)"

text \<open>\<^verbatim>\<open>check_web_requests\<close>: reads both flags, clears both, returns what it read.\<close>

definition check_web_requests :: "shared_state \<Rightarrow> (bool \<times> bool) \<times> shared_state" where
  "check_web_requests s =
     (let start_req = web_start_requested s;
          stop_req = web_stop_requested s
      in ((start_req, stop_req),
          s\<lparr> web_start_requested := False, web_stop_requested := False \<rparr>))"

text \<open>The handlers of \<^verbatim>\<open>/start_monitoring\<close> and \<^verbatim>\<open>/stop_monitoring\<close> (lines 1373--1381).\<close>

definition start_monitoring_web :: "shared_state \<Rightarrow> shared_state" where
  "start_monitoring_web s = s\<lparr> web_start_requested := True \<rparr>"

definition stop_monitoring_web :: "shared_state \<Rightarrow> shared_state" where
  "stop_monitoring_web s = s\<lparr> web_stop_requested := True \<rparr>"

subsection \<open>Strings: \<^verbatim>\<open>str.strip\<close>\<close>

text \<open>The code points for which \<^verbatim>\<open>str.isspace\<close> holds.\<close>

definition py_isspace :: "nat \<Rightarrow> bool" where
  "py_isspace c \<longleftrightarrow>
     (9 \<le> c \<and> c \<le> 13) \<or> (28 \<le> c \<and> c \<le> 32) \<or> c = 133 \<or> c = 160 \<or> c = 5760 \<or>
     (8192 \<le> c \<and> c \<le> 8202) \<or> c = 8232 \<or> c = 8233 \<or> c = 8239 \<or> c = 8287 \<or> c = 12288"

definition strip :: "pystr \<Rightarrow> pystr" where
  "strip s = rev (dropWhile py_isspace (rev (dropWhile py_isspace s)))"

text \<open>\<^verbatim>\<open>add_tts_message\<close>: the message is queued only when the engine exists.\<close>

definition add_tts_message :: "pystr \<Rightarrow> shared_state \<Rightarrow> shared_state" where
  "add_tts_message message s =
     (if tts_engine s \<noteq> None \<and> strip message \<noteq> []
      then s\<lparr> tts_queue := tts_queue s @ [message] \<rparr>
      else s)"

subsection \<open>Numeric helpers (lines 30--38) and the \<^verbatim>\<open>math\<close> functions of the level\<close>

definition try_bind :: "py_error + 'a \<Rightarrow> ('a \<Rightarrow> py_error + 'b) \<Rightarrow> py_error + 'b" where
  "try_bind r f = (case r of Inl e \<Rightarrow> Inl e | Inr v \<Rightarrow> f v)"

text \<open>
  Floats with NaN and the infinities. \<open>py_lt\<close> is \<^verbatim>\<open><\<close>: false whenever NaN is involved.
  \<^verbatim>\<open>min(a, b)\<close> is \<open>b\<close> when \<^verbatim>\<open>b < a\<close> and \<open>a\<close> otherwise; \<^verbatim>\<open>max(a, b)\<close> is \<open>b\<close> when
  \<^verbatim>\<open>b > a\<close> and \<open>a\<close> otherwise.
\<close>

datatype pyfloat = Fin real | PInf | NInf | NaN

fun py_lt :: "pyfloat \<Rightarrow> pyfloat \<Rightarrow> bool" where
  "py_lt (Fin x) (Fin y) = (x < y)"
| "py_lt (Fin x) PInf = True"
| "py_lt NInf (Fin y) = True"
| "py_lt NInf PInf = True"
| "py_lt a b = False"

definition py_min :: "pyfloat \<Rightarrow> pyfloat \<Rightarrow> pyfloat" where
  "py_min a b = (if py_lt b a then b else a)"

definition py_max :: "pyfloat \<Rightarrow> pyfloat \<Rightarrow> pyfloat" where
  "py_max a b = (if py_lt a b then b else a)"

definition clip :: "pyfloat list \<Rightarrow> pyfloat \<Rightarrow> pyfloat \<Rightarrow> pyfloat list" where
  "clip value min_val max_val = map (\<lambda>v. py_max min_val (py_min max_val v)) value"

text \<open>The values of a list of floats when all of them are finite.\<close>

fun finite_values :: "pyfloat list \<Rightarrow> real list option" where
  "finite_values [] = Some []"
| "finite_values (Fin x # vs) = map_option ((#) x) (finite_values vs)"
| "finite_values (v # vs) = None"

fun isfinite :: "pyfloat \<Rightarrow> bool" where
  "isfinite (Fin x) = True"
| "isfinite v = False"

definition mean :: "real list \<Rightarrow> py_error + real" where
  "mean values =
     (if length values = 0 then Inl ZeroDivisionError
      else Inr (sum_list values / real (length values)))"

text \<open>\<^verbatim>\<open>math.sqrt\<close> and \<^verbatim>\<open>math.log10\<close> raise \<^verbatim>\<open>ValueError\<close> outside their domain.\<close>

definition py_sqrt :: "real \<Rightarrow> py_error + real" where
  "py_sqrt x = (if x < 0 then Inl ValueError else Inr (sqrt x))"

definition py_log10 :: "real \<Rightarrow> py_error + real" where
  "py_log10 x = (if x \<le> 0 then Inl ValueError else Inr (log 10 x))"

subsection \<open>Level estimation (lines 244--245 and 280--282)\<close>

definition rms_to_db :: "real \<Rightarrow> py_error + real" where
  "rms_to_db rms = try_bind (py_log10 (rms + 1 / 10 ^ 10)) (\<lambda>l. Inr (20 * l))"

text \<open>
  Lines 280--282 of \<^verbatim>\<open>Monitor.run\<close>: clip, root mean square, decibels. Any exception
  raised here is not caught by \<^verbatim>\<open>run\<close>.
\<close>

definition monitor_level :: "pyfloat list \<Rightarrow> py_error + real" where
  "monitor_level rec_flat =
     (let rec_clipped = clip rec_flat (Fin (-1)) (Fin 1)
      in case finite_values rec_clipped of
           None \<Rightarrow> Inl NotFinite
         | Some rs \<Rightarrow>
             try_bind (mean (map (\<lambda>r. r * r) rs)) (\<lambda>m.
             try_bind (py_sqrt m) (\<lambda>rms.
             rms_to_db rms)))"

subsection \<open>Numbers in tone synthesis\<close>

text \<open>
  A number is an integer of any size or a float. The platform supplies the operations on
  doubles whose results depend on rounding and overflow: the four arithmetic operations,
  the sine, the conversion of an integer (\<open>None\<close> when it is too large for a float) and
  the true division of two integers (\<open>None\<close> when the quotient is too large).
\<close>

datatype pynum = PInt int | PFloat pyfloat

record fpu =
  fl_add :: "pyfloat \<Rightarrow> pyfloat \<Rightarrow> pyfloat"
  fl_sub :: "pyfloat \<Rightarrow> pyfloat \<Rightarrow> pyfloat"
  fl_mul :: "pyfloat \<Rightarrow> pyfloat \<Rightarrow> pyfloat"
  fl_div :: "pyfloat \<Rightarrow> pyfloat \<Rightarrow> pyfloat"
  fl_sin :: "pyfloat \<Rightarrow> pyfloat"
  fl_of_int :: "int \<Rightarrow> pyfloat option"
  fl_int_div :: "int \<Rightarrow> int \<Rightarrow> pyfloat option"

text \<open>The double \<^verbatim>\<open>math.pi\<close>, exactly.\<close>

definition math_pi :: pyfloat where
  "math_pi = Fin (884279719003555 / 281474976710656)"

definition to_float :: "fpu \<Rightarrow> pynum \<Rightarrow> py_error + pyfloat" where
  "to_float fp a =
     (case a of
        PFloat x \<Rightarrow> Inr x
      | PInt i \<Rightarrow> (case fl_of_int fp i of None \<Rightarrow> Inl OverflowError | Some x \<Rightarrow> Inr x))"

text \<open>An operation on two numbers of which one at least is a float.\<close>

definition float_op ::
  "fpu \<Rightarrow> (pyfloat \<Rightarrow> pyfloat \<Rightarrow> pyfloat) \<Rightarrow> pynum \<Rightarrow> pynum \<Rightarrow> py_error + pynum" where
  "float_op fp f a b =
     try_bind (to_float fp a) (\<lambda>x. try_bind (to_float fp b) (\<lambda>y. Inr (PFloat (f x y))))"

fun py_add :: "fpu \<Rightarrow> pynum \<Rightarrow> pynum \<Rightarrow> py_error + pynum" where
  "py_add fp (PInt i) (PInt j) = Inr (PInt (i + j))"
| "py_add fp a b = float_op fp (fl_add fp) a b"

fun py_sub :: "fpu \<Rightarrow> pynum \<Rightarrow> pynum \<Rightarrow> py_error + pynum" where
  "py_sub fp (PInt i) (PInt j) = Inr (PInt (i - j))"
| "py_sub fp a b = float_op fp (fl_sub fp) a b"

fun py_mul :: "fpu \<Rightarrow> pynum \<Rightarrow> pynum \<Rightarrow> py_error + pynum" where
  "py_mul fp (PInt i) (PInt j) = Inr (PInt (i * j))"
| "py_mul fp a b = float_op fp (fl_mul fp) a b"

text \<open>\<^verbatim>\<open>a / b\<close>: always a float; a zero divisor raises \<^verbatim>\<open>ZeroDivisionError\<close>.\<close>

fun py_truediv :: "fpu \<Rightarrow> pynum \<Rightarrow> pynum \<Rightarrow> py_error + pynum" where
  "py_truediv fp (PInt i) (PInt j) =
     (if j = 0 then Inl ZeroDivisionError
      else (case fl_int_div fp i j of None \<Rightarrow> Inl OverflowError | Some q \<Rightarrow> Inr (PFloat q)))"
| "py_truediv fp a b =
     try_bind (to_float fp a) (\<lambda>x. try_bind (to_float fp b) (\<lambda>y.
       if y = Fin 0 then Inl ZeroDivisionError else Inr (PFloat (fl_div fp x y))))"

text \<open>\<^verbatim>\<open>math.sin\<close> raises \<^verbatim>\<open>ValueError\<close> on an infinity and returns NaN on NaN.\<close>

definition math_sin :: "fpu \<Rightarrow> pynum \<Rightarrow> py_error + pynum" where
  "math_sin fp a =
     try_bind (to_float fp a) (\<lambda>x.
       if x = PInf \<or> x = NInf then Inl ValueError else Inr (PFloat (fl_sin fp x)))"

text \<open>
  \<^verbatim>\<open>math.floor\<close> and \<^verbatim>\<open>int\<close> return an integer, exactly; on NaN they raise
  \<^verbatim>\<open>ValueError\<close>, on an infinity \<^verbatim>\<open>OverflowError\<close>. \<^verbatim>\<open>int\<close> truncates toward zero.
\<close>

fun math_floor :: "pynum \<Rightarrow> py_error + int" where
  "math_floor (PInt i) = Inr i"
| "math_floor (PFloat (Fin x)) = Inr \<lfloor>x\<rfloor>"
| "math_floor (PFloat NaN) = Inl ValueError"
| "math_floor (PFloat v) = Inl OverflowError"

fun py_int :: "pynum \<Rightarrow> py_error + int" where
  "py_int (PInt i) = Inr i"
| "py_int (PFloat (Fin x)) = Inr (if 0 \<le> x then \<lfloor>x\<rfloor> else \<lceil>x\<rceil>)"
| "py_int (PFloat NaN) = Inl ValueError"
| "py_int (PFloat v) = Inl OverflowError"

text \<open>\<^verbatim>\<open>v > 0\<close> and \<^verbatim>\<open>v < 0\<close>.\<close>

fun num_pos :: "pynum \<Rightarrow> bool" where
  "num_pos (PInt i) = (0 < i)"
| "num_pos (PFloat x) = py_lt (Fin 0) x"

fun num_neg :: "pynum \<Rightarrow> bool" where
  "num_neg (PInt i) = (i < 0)"
| "num_neg (PFloat x) = py_lt x (Fin 0)"

text \<open>A list comprehension whose element expression can raise.\<close>

fun map_try :: "('a \<Rightarrow> py_error + 'b) \<Rightarrow> 'a list \<Rightarrow> py_error + 'b list" where
  "map_try f [] = Inr []"
| "map_try f (x # xs) =
     try_bind (f x) (\<lambda>y. try_bind (map_try f xs) (\<lambda>ys. Inr (y # ys)))"

text \<open>\<^verbatim>\<open>linspace\<close> (lines 23--28) and \<^verbatim>\<open>sign\<close> on a list (lines 40--43).\<close>

definition linspace :: "fpu \<Rightarrow> pynum \<Rightarrow> pynum \<Rightarrow> int \<Rightarrow> py_error + pynum list" where
  "linspace fp start stop num =
     (if num \<le> 1 then Inr [start]
      else try_bind (py_sub fp stop start) (\<lambda>d.
           try_bind (py_truediv fp d (PInt (num - 1))) (\<lambda>step.
           map_try (\<lambda>i. try_bind (py_mul fp step (PInt (int i))) (\<lambda>p. py_add fp start p))
             [0..<nat num])))"

definition sign :: "pynum list \<Rightarrow> pynum list" where
  "sign x = map (\<lambda>v. PInt (if num_pos v then 1 else if num_neg v then -1 else 0)) x"

subsection \<open>Tone synthesis (lines 202--235)\<close>

text \<open>
  \<^verbatim>\<open>struct.pack('<' + 'h' * len(audio), *audio)\<close>: every value must fit a signed 16-bit
  integer, otherwise \<^verbatim>\<open>struct.error\<close> is raised. The packed buffer is kept as its list of
  16-bit samples.
\<close>

definition struct_pack_h :: "int list \<Rightarrow> py_error + 16 word list" where
  "struct_pack_h audio =
     (if list_all (\<lambda>a. - 32768 \<le> a \<and> a \<le> 32767) audio
      then Inr (map word_of_int audio)
      else Inl StructError)"

text \<open>\<^verbatim>\<open>int(fs*ms/1000)\<close>, the number of points asked of \<^verbatim>\<open>linspace\<close> at line 204.\<close>

definition sample_count :: "fpu \<Rightarrow> int \<Rightarrow> pynum \<Rightarrow> py_error + int" where
  "sample_count fp fs ms =
     try_bind (py_mul fp (PInt fs) ms) (\<lambda>a.
     try_bind (py_truediv fp a (PInt 1000)) (\<lambda>q.
     py_int q))"

text \<open>\<^verbatim>\<open>[math.sin(2*math.pi*freq*ti) for ti in t]\<close>, lines 206 and 208.\<close>

definition sine_wave :: "fpu \<Rightarrow> pynum \<Rightarrow> pynum list \<Rightarrow> py_error + pynum list" where
  "sine_wave fp freq t =
     map_try (\<lambda>ti.
       try_bind (py_mul fp (PInt 2) (PFloat math_pi)) (\<lambda>a.
       try_bind (py_mul fp a freq) (\<lambda>b.
       try_bind (py_mul fp b ti) (\<lambda>c.
       math_sin fp c)))) t"

text \<open>\<^verbatim>\<open>[2*(ti*freq - math.floor(0.5 + ti*freq)) for ti in t]\<close>, line 210.\<close>

definition saw_wave :: "fpu \<Rightarrow> pynum \<Rightarrow> pynum list \<Rightarrow> py_error + pynum list" where
  "saw_wave fp freq t =
     map_try (\<lambda>ti.
       try_bind (py_mul fp ti freq) (\<lambda>m1.
       try_bind (py_mul fp ti freq) (\<lambda>m2.
       try_bind (py_add fp (PFloat (Fin (1 / 2))) m2) (\<lambda>a.
       try_bind (math_floor a) (\<lambda>k.
       try_bind (py_sub fp m1 (PInt k)) (\<lambda>d.
       py_mul fp (PInt 2) d)))))) t"

text \<open>\<^verbatim>\<open>[int((w * (volume/100) * 32767)) for w in wave]\<close>, line 211.\<close>

definition quantize :: "fpu \<Rightarrow> pynum \<Rightarrow> pynum list \<Rightarrow> py_error + int list" where
  "quantize fp volume wave =
     map_try (\<lambda>w.
       try_bind (py_truediv fp volume (PInt 100)) (\<lambda>v.
       try_bind (py_mul fp w v) (\<lambda>p.
       try_bind (py_mul fp p (PInt 32767)) (\<lambda>r.
       py_int r)))) wave"

definition gen_wave ::
  "fpu \<Rightarrow> string \<Rightarrow> pynum \<Rightarrow> pynum \<Rightarrow> pynum \<Rightarrow> py_error + (16 word list \<times> int)" where
  "gen_wave fp shape freq ms volume =
     (let fs = 44100
      in try_bind (py_truediv fp ms (PInt 1000)) (\<lambda>stop.
         try_bind (sample_count fp fs ms) (\<lambda>num.
         try_bind (linspace fp (PInt 0) stop num) (\<lambda>t.
         try_bind (if shape = ''Sine'' then sine_wave fp freq t
                   else if shape = ''Square''
                     then try_bind (sine_wave fp freq t) (\<lambda>s. Inr (sign s))
                   else saw_wave fp freq t) (\<lambda>wave.
         try_bind (quantize fp volume wave) (\<lambda>audio.
         try_bind (struct_pack_h audio) (\<lambda>audio_bytes.
         Inr (audio_bytes, fs))))))))"

text \<open>
  \<^verbatim>\<open>play_tone\<close>. The body of its \<^verbatim>\<open>try\<close> is \<open>play_tone_body\<close>; \<open>device_failure\<close> is the
  outcome of opening the output device and writing to it (\<open>Some e\<close> when PyAudio raised).
  The handler \<^verbatim>\<open>except Exception\<close> prints the error; the printed lines are the last
  argument and the result.
\<close>

datatype log_line = Error_playing_tone py_error

definition play_tone_body ::
  "fpu \<Rightarrow> string \<Rightarrow> pynum \<Rightarrow> pynum \<Rightarrow> pynum \<Rightarrow> py_error option \<Rightarrow> py_error + unit" where
  "play_tone_body fp shape freq ms vol device_failure =
     try_bind (gen_wave fp shape freq ms vol) (\<lambda>(audio_bytes, fs).
       case device_failure of None \<Rightarrow> Inr () | Some e \<Rightarrow> Inl e)"

definition play_tone ::
  "fpu \<Rightarrow> string \<Rightarrow> pynum \<Rightarrow> pynum \<Rightarrow> pynum \<Rightarrow> py_error option \<Rightarrow> log_line list
     \<Rightarrow> py_error + log_line list" where
  "play_tone fp shape freq ms vol device_failure printed =
     (case play_tone_body fp shape freq ms vol device_failure of
        Inr u \<Rightarrow> Inr printed
      | Inl e \<Rightarrow> Inr (printed @ [Error_playing_tone e]))"

text \<open>
  A platform without rounding and without overflow. It is not the platform of the
  program; it serves to run the model on inputs where rounding does not decide the
  outcome.
\<close>

fun exact_op :: "(real \<Rightarrow> real \<Rightarrow> real) \<Rightarrow> pyfloat \<Rightarrow> pyfloat \<Rightarrow> pyfloat" where
  "exact_op f (Fin x) (Fin y) = Fin (f x y)"
| "exact_op f a b = NaN"

fun exact_sin :: "pyfloat \<Rightarrow> pyfloat" where
  "exact_sin (Fin x) = Fin (sin x)"
| "exact_sin a = NaN"

definition exact_fpu :: fpu where
  "exact_fpu =
     \<lparr> fl_add = exact_op (+), fl_sub = exact_op (-), fl_mul = exact_op (*),
       fl_div = exact_op (/), fl_sin = exact_sin,
       fl_of_int = (\<lambda>i. Some (Fin (real_of_int i))),
       fl_int_div = (\<lambda>i j. Some (Fin (real_of_int i / real_of_int j))) \<rparr>"

text \<open>The value of a number that is an integer or a finite float.\<close>

fun num_val :: "pynum \<Rightarrow> real option" where
  "num_val (PInt i) = Some (real_of_int i)"
| "num_val (PFloat (Fin x)) = Some x"
| "num_val (PFloat v) = None"

subsection \<open>The monitor thread (lines 237--289)\<close>

text \<open>The dictionary that \<^verbatim>\<open>push_settings\<close> (lines 1821--1834) puts on \<^verbatim>\<open>q_cmd\<close>.\<close>

record settings =
  s_thresh :: real
  s_shape :: string
  s_freq :: int
  s_dur :: int
  s_vol :: int
  s_fs :: int
  s_chunk :: real
  s_delay :: real
  s_device :: int
  s_output_device :: "int option"
  s_web_enabled :: bool
  s_web_port :: int

text \<open>
  The settings pushed when the configuration file is empty: the defaults of lines 121,
  1766--1785 and 1969--1970 and the constants of lines 1827--1829. The two device indices
  depend on the machine; these are one possible choice.
\<close>

definition default_settings :: settings where
  "default_settings =
     \<lparr> s_thresh = -30, s_shape = ''Sine'', s_freq = 1000, s_dur = 200, s_vol = 50,
       s_fs = 44100, s_chunk = 1 / 10, s_delay = 2 / 100, s_device = 0,
       s_output_device = None, s_web_enabled = True, s_web_port = 8080 \<rparr>"

datatype ui_event = DB real | ERR py_error

text \<open>
  The state of the thread: the local variable \<^verbatim>\<open>settings\<close> (\<open>None\<close> is the empty
  dictionary it starts with), the queue \<^verbatim>\<open>q_ui\<close>, the event \<^verbatim>\<open>stop_evt\<close> and what has
  been printed.
\<close>

record monitor =
  cur_settings :: "settings option"
  q_ui :: "ui_event list"
  stop_evt :: bool
  printed :: "log_line list"

text \<open>
  What the surroundings do during one iteration of the \<^verbatim>\<open>while\<close> loop:
  \<^item> \<open>stop_called\<close>: \<^verbatim>\<open>stop()\<close> has set \<^verbatim>\<open>stop_evt\<close> before the loop test;
  \<^item> \<open>q_cmd\<close>: the settings waiting on \<^verbatim>\<open>q_cmd\<close> when it is drained, oldest first;
  \<^item> \<open>recording\<close>: the outcome of lines 258--275, either the exception raised while
    opening, reading, closing or unpacking, or the list \<^verbatim>\<open>rec_flat\<close>;
  \<^item> \<open>tone_failure\<close>: the exception raised by the output device, if any, should
    \<^verbatim>\<open>play_tone\<close> be called.
\<close>

record cycle_env =
  stop_called :: bool
  q_cmd :: "settings list"
  recording :: "py_error + pyfloat list"
  tone_failure :: "py_error option"

datatype step = Continue monitor | Break monitor | Uncaught py_error monitor

text \<open>\<^verbatim>\<open>time.sleep\<close> raises \<^verbatim>\<open>ValueError\<close> for a negative duration.\<close>

definition py_sleep :: "real \<Rightarrow> py_error + unit" where
  "py_sleep secs = (if secs < 0 then Inl ValueError else Inr ())"

text \<open>Lines 250--252: \<^verbatim>\<open>q_cmd\<close> is emptied and the newest settings are kept.\<close>

definition drain_q_cmd :: "monitor \<Rightarrow> cycle_env \<Rightarrow> monitor" where
  "drain_q_cmd m env =
     (if q_cmd env = [] then m else m\<lparr> cur_settings := Some (last (q_cmd env)) \<rparr>)"

text \<open>One iteration of the loop body, lines 250--289.\<close>

definition monitor_cycle :: "fpu \<Rightarrow> monitor \<Rightarrow> cycle_env \<Rightarrow> step" where
  "monitor_cycle fp m env =
     (let m1 = drain_q_cmd m env
      in case cur_settings m1 of
           None \<Rightarrow> Continue m1
         | Some st \<Rightarrow>
             (case recording env of
                Inl e \<Rightarrow> Break (m1\<lparr> q_ui := q_ui m1 @ [ERR e], stop_evt := True \<rparr>)
              | Inr rec_flat \<Rightarrow>
                  (case monitor_level rec_flat of
                     Inl e \<Rightarrow> Uncaught e m1
                   | Inr db \<Rightarrow>
                       (let m2 = m1\<lparr> q_ui := q_ui m1 @ [DB db] \<rparr>;
                            played = (if db > s_thresh st
                                      then play_tone fp (s_shape st) (PInt (s_freq st))
                                             (PInt (s_dur st)) (PInt (s_vol st))
                                             (tone_failure env) (printed m2)
                                      else Inr (printed m2))
                        in case played of
                             Inl e \<Rightarrow> Uncaught e m2
                           | Inr p \<Rightarrow>
                               (case py_sleep (s_delay st) of
                                  Inl e \<Rightarrow> Uncaught e (m2\<lparr> printed := p \<rparr>)
                                | Inr u \<Rightarrow> Continue (m2\<lparr> printed := p \<rparr>))))))"

text \<open>
  \<^verbatim>\<open>Monitor.run\<close> along a finite trace of the surroundings. \<open>Running\<close>: the trace has ended
  and the loop is still alive; \<open>Exited\<close>: the loop has ended; \<open>Died\<close>: an exception left
  \<^verbatim>\<open>run\<close>.
\<close>

datatype run_result = Running monitor | Exited monitor | Died py_error monitor

fun run :: "fpu \<Rightarrow> monitor \<Rightarrow> cycle_env list \<Rightarrow> run_result" where
  "run fp m [] = Running m"
| "run fp m (env # envs) =
     (let m0 = (if stop_called env then m\<lparr> stop_evt := True \<rparr> else m)
      in if stop_evt m0 then Exited m0
         else (case monitor_cycle fp m0 env of
                 Continue m' \<Rightarrow> run fp m' envs
               | Break m' \<Rightarrow> Exited m'
               | Uncaught e m' \<Rightarrow> Died e m'))"

definition new_monitor :: "ui_event list \<Rightarrow> monitor" where
  "new_monitor q = \<lparr> cur_settings = None, q_ui = q, stop_evt = False, printed = [] \<rparr>"

subsection \<open>Calibration (lines 1857--1945)\<close>

datatype dialog_text =
    Plain string
  | Could_not_record_audio py_error
  | Calibration_successful real real

datatype dialog = Showerror string dialog_text | Showinfo string dialog_text

text \<open>
  What calibration can change: the dialogs shown and the arguments of the calls of
  \<^verbatim>\<open>thresh_scale.set\<close>, both in order.
\<close>

record panel =
  dialogs :: "dialog list"
  scale_sets :: "real list"

text \<open>\<^verbatim>\<open>round(x, 1)\<close>: one decimal, ties go to the even neighbour.\<close>

definition round_half_even :: "real \<Rightarrow> int" where
  "round_half_even y =
     (let f = \<lfloor>y\<rfloor>; d = y - real_of_int f
      in if d < 1 / 2 then f else if d > 1 / 2 then f + 1 else if even f then f else f + 1)"

definition py_round1 :: "real \<Rightarrow> real" where
  "py_round1 x = real_of_int (round_half_even (x * 10)) / 10"

definition showerror :: "dialog_text \<Rightarrow> panel \<Rightarrow> panel" where
  "showerror txt p = p\<lparr> dialogs := dialogs p @ [Showerror ''Calibration Error'' txt] \<rparr>"

text \<open>
  Lines 1923--1934: from the clipped recording to the ambient level and the new threshold.
\<close>

definition calibration_levels :: "pyfloat list \<Rightarrow> py_error + (real \<times> real)" where
  "calibration_levels rec_flat =
     (let rec_clipped = clip rec_flat (Fin (-1)) (Fin 1)
      in case finite_values rec_clipped of
           None \<Rightarrow> Inl NotFinite
         | Some rs \<Rightarrow>
             try_bind (mean (map (\<lambda>r. r * r) rs)) (\<lambda>m.
             try_bind (py_sqrt m) (\<lambda>rms.
             try_bind (if rms < 1 / 10 ^ 10 then Inr (-100)
                       else try_bind (py_log10 rms) (\<lambda>l. Inr (20 * l))) (\<lambda>ambient0.
             (let ambient = (if \<not> isfinite (Fin ambient0) then -100 else ambient0);
                  new_threshold = py_round1 (ambient + 10);
                  new_value0 = max new_threshold (-50);
                  new_value = (if \<not> isfinite (Fin new_value0) then -30 else new_value0)
              in Inr (ambient, new_value))))))"

text \<open>
  \<^verbatim>\<open>calibrate\<close>. \<open>device_idx\<close> is the index looked up at line 1859 (\<open>-1\<close> when the
  name is unknown); \<open>recording\<close> is the outcome of lines 1894--1915, as for the monitor.
\<close>

definition calibrate :: "int \<Rightarrow> py_error + pyfloat list \<Rightarrow> panel \<Rightarrow> py_error + panel" where
  "calibrate device_idx rec p =
     (if device_idx = -1 then Inr (showerror (Plain ''No valid input device selected.'') p)
      else (case rec of
              Inl e \<Rightarrow> Inr (showerror (Could_not_record_audio e) p)
            | Inr rec_flat \<Rightarrow>
                if length rec_flat = 0 \<or> list_all (\<lambda>r. r = Fin 0) rec_flat
                then Inr (showerror
                       (Plain ''No audio data received. Please check your microphone.'') p)
                else try_bind (calibration_levels rec_flat) (\<lambda>(ambient, new_value).
                       Inr (p\<lparr> scale_sets := scale_sets p @ [new_value],
                               dialogs := dialogs p @
                                 [Showinfo ''Calibration Complete''
                                    (Calibration_successful ambient new_value)] \<rparr>))))"

subsection \<open>The \<^verbatim>\<open>/send_message\<close> endpoint (lines 1383--1411)\<close>

datatype json =
    JNull
  | JBool bool
  | JNumber real
  | JString pystr
  | JArray "json list"
  | JObject "(string \<times> json) list"

datatype err_text = Text string | Str py_error

record response =
  r_success :: bool
  r_error :: "err_text option"
  r_message :: "string option"

text \<open>\<^verbatim>\<open>data.get('message', '')\<close>: only a dictionary has \<^verbatim>\<open>get\<close>.\<close>

definition data_get_message :: "json \<Rightarrow> py_error + json" where
  "data_get_message data =
     (case data of
        JObject kvs \<Rightarrow> Inr (case map_of kvs ''message'' of None \<Rightarrow> JString [] | Some v \<Rightarrow> v)
      | _ \<Rightarrow> Inl AttributeError)"

text \<open>\<^verbatim>\<open>.strip()\<close>: only a string has \<^verbatim>\<open>strip\<close>.\<close>

definition json_strip :: "json \<Rightarrow> py_error + pystr" where
  "json_strip v = (case v of JString s \<Rightarrow> Inr (strip s) | _ \<Rightarrow> Inl AttributeError)"

text \<open>
  The body of the \<^verbatim>\<open>try\<close>. \<open>body\<close> is the outcome of \<^verbatim>\<open>request.get_json()\<close>.
\<close>

definition send_message_body ::
  "py_error + json \<Rightarrow> shared_state \<Rightarrow> py_error + (response \<times> shared_state)" where
  "send_message_body body s =
     try_bind body (\<lambda>data.
     try_bind (data_get_message data) (\<lambda>v.
     try_bind (json_strip v) (\<lambda>message.
       if message = []
       then Inr (\<lparr> r_success = False, r_error = Some (Text ''No message provided''),
                    r_message = None \<rparr>, s)
       else if length message > 500
       then Inr (\<lparr> r_success = False,
                    r_error = Some (Text ''Message too long (max 500 characters)''),
                    r_message = None \<rparr>, s)
       else Inr (\<lparr> r_success = True, r_error = None,
                    r_message = Some ''Message queued for speech'' \<rparr>,
                 add_tts_message message s))))"

definition send_message :: "py_error + json \<Rightarrow> shared_state \<Rightarrow> response \<times> shared_state" where
  "send_message body s =
     (case send_message_body body s of
        Inr res \<Rightarrow> res
      | Inl e \<Rightarrow> (\<lparr> r_success = False, r_error = Some (Str e), r_message = None \<rparr>, s))"

section \<open>Theorems\<close>

subsection \<open>Auxiliary facts\<close>

lemma log10_eps: "log 10 (1 / 10 ^ 10) = (-10::real)"
  unfolding log_recip using log_pow_cancel [of "10::real" 10] by simp

lemma clip_one:
  "py_max (Fin (-1)) (py_min (Fin 1) v) =
     Fin (case v of Fin x \<Rightarrow> max (-1) (min 1 x) | NInf \<Rightarrow> -1 | PInf \<Rightarrow> 1 | NaN \<Rightarrow> 1)"
  by (cases v) (simp_all add: py_max_def py_min_def)

lemma finite_values_map_Fin: "finite_values (map (\<lambda>v. Fin (f v)) xs) = Some (map f xs)"
  by (induction xs) simp_all

lemma clip_finite:
  "finite_values (clip xs (Fin (-1)) (Fin 1)) =
     Some (map (\<lambda>v. case v of Fin x \<Rightarrow> max (-1) (min 1 x) | NInf \<Rightarrow> -1 | PInf \<Rightarrow> 1
                      | NaN \<Rightarrow> 1) xs)"
  unfolding clip_def clip_one by (rule finite_values_map_Fin)

lemma clip_replicate:
  "finite_values (clip (replicate n (Fin x)) (Fin (-1)) (Fin 1)) =
     Some (replicate n (max (-1) (min 1 x)))"
  by (simp add: clip_finite)

lemma all_zero_replicate:
  "list_all (\<lambda>r. r = Fin 0) xs \<Longrightarrow> xs = replicate (length xs) (Fin 0)"
  by (induction xs) simp_all

lemma monitor_level_silence:
  assumes "xs \<noteq> []" and "list_all (\<lambda>r. r = Fin 0) xs"
  shows "monitor_level xs = Inr (-200)"
proof -
  have c: "finite_values (clip xs (Fin (-1)) (Fin 1)) = Some (replicate (length xs) 0)"
    using clip_replicate [of "length xs" 0] all_zero_replicate [OF assms(2)] by simp
  have m: "mean (replicate (length xs) (0::real)) = Inr 0"
    using assms(1) by (simp add: mean_def sum_list_replicate)
  have r: "rms_to_db 0 = Inr (-200)"
    using log10_eps by (simp add: rms_to_db_def py_log10_def try_bind_def)
  show ?thesis
    using r by (simp add: monitor_level_def c m py_sqrt_def try_bind_def)
qed

lemma monitor_level_not_NotFinite: "monitor_level xs \<noteq> Inl NotFinite"
  by (auto simp: monitor_level_def clip_finite mean_def py_sqrt_def rms_to_db_def py_log10_def
        try_bind_def split: if_splits)

lemma sum_sq_nonneg: "0 \<le> sum_list (map (\<lambda>r. r * r) (xs :: real list))"
  by (rule sum_list_nonneg) auto

lemma clip_values_exist:
  "\<exists>rs. finite_values (clip rec_flat (Fin (-1)) (Fin 1)) = Some rs \<and>
        length rs = length rec_flat"
  by (simp add: clip_finite)

lemma calibration_levels_not_NotFinite: "calibration_levels xs \<noteq> Inl NotFinite"
  by (auto simp: calibration_levels_def clip_finite mean_def py_sqrt_def py_log10_def
        try_bind_def Let_def split: if_splits)

lemma monitor_level_returns:
  assumes "xs \<noteq> []"
  shows "\<exists>db. monitor_level xs = Inr db"
proof -
  obtain rs where rs: "finite_values (clip xs (Fin (-1)) (Fin 1)) = Some rs"
    and len: "length rs = length xs"
    using clip_values_exist by blast
  from len assms have ne: "rs \<noteq> []" by auto
  have nn: "0 \<le> sum_list (map (\<lambda>r. r * r) rs) / real (length rs)"
    using sum_sq_nonneg [of rs] by simp
  then have "0 < sqrt (sum_list (map (\<lambda>r. r * r) rs) / real (length rs)) + 1 / 10 ^ 10"
    by (simp add: add_nonneg_pos)
  then show ?thesis
    using ne nn
    by (simp add: monitor_level_def rs mean_def py_sqrt_def rms_to_db_def py_log10_def
          try_bind_def not_le [symmetric] del: not_le)
qed

lemma strip_last: "strip s \<noteq> [] \<Longrightarrow> \<not> py_isspace (last (strip s))"
  unfolding strip_def by (simp add: last_rev hd_dropWhile)

lemma strip_hd: "strip s \<noteq> [] \<Longrightarrow> \<not> py_isspace (hd (strip s))"
proof -
  assume ne: "strip s \<noteq> []"
  define ys where "ys = dropWhile py_isspace s"
  have st: "strip s = rev (dropWhile py_isspace (rev ys))"
    unfolding strip_def ys_def ..
  have ys: "ys \<noteq> []"
  proof
    assume "ys = []"
    with st have "strip s = []" by simp
    with ne show False by simp
  qed
  then have h: "\<not> py_isspace (hd ys)" unfolding ys_def by (rule hd_dropWhile)
  have d: "dropWhile py_isspace (rev ys) \<noteq> []" using ne st by simp
  then obtain x where x: "x \<in> set (rev ys)" "\<not> py_isspace x"
    by (auto simp: dropWhile_eq_Nil_conv)
  have "hd (strip s) = last (dropWhile py_isspace (rev ys))"
    using d st by (simp add: hd_rev)
  also have "\<dots> = last (rev ys)" using x by (rule dropWhile_last)
  also have "\<dots> = hd ys" using ys by (simp add: last_rev)
  finally show ?thesis using h by simp
qed

lemma dropWhile_id: "xs \<noteq> [] \<Longrightarrow> \<not> P (hd xs) \<Longrightarrow> dropWhile P xs = xs"
  by (cases xs) simp_all

lemma strip_idem: "strip (strip s) = strip s"
proof (cases "strip s = []")
  case True
  have "strip [] = []" by (simp add: strip_def)
  with True show ?thesis by (simp only:)
next
  case False
  have a: "dropWhile py_isspace (strip s) = strip s"
    using False strip_hd by (simp add: dropWhile_id)
  have b: "dropWhile py_isspace (rev (strip s)) = rev (strip s)"
    using False strip_last [of s] by (simp add: dropWhile_id hd_rev)
  have "strip (strip s) = rev (dropWhile py_isspace (rev (dropWhile py_isspace (strip s))))"
    by (simp add: strip_def)
  then show ?thesis by (simp add: a b)
qed

subsection \<open>Edge-triggered start and stop requests\<close>

lemma check_web_requests_clears:
  "web_start_requested (snd (check_web_requests s)) = False \<and>
   web_stop_requested (snd (check_web_requests s)) = False"
  by (simp add: check_web_requests_def)

lemma check_web_requests_reads:
  "fst (check_web_requests s) = (web_start_requested s, web_stop_requested s)"
  by (simp add: check_web_requests_def)

text \<open>
  C2. After one start request on a state with no stop request pending, the first
  \<^verbatim>\<open>check_web_requests\<close> returns \<open>(True, False)\<close> and the second, called on the state the
  first one left, returns \<open>(False, False)\<close>; both flags are clear afterwards.
\<close>

theorem start_request_delivered_once:
  assumes "\<not> web_stop_requested s"
  shows "fst (check_web_requests (start_monitoring_web s)) = (True, False) \<and>
         fst (check_web_requests (snd (check_web_requests (start_monitoring_web s))))
           = (False, False) \<and>
         \<not> web_start_requested (snd (check_web_requests (start_monitoring_web s))) \<and>
         \<not> web_stop_requested (snd (check_web_requests (start_monitoring_web s)))"
  using assms by (simp add: check_web_requests_def start_monitoring_web_def)

theorem start_request_delivered_once_witness:
  "\<not> web_stop_requested (init_shared_state \<lparr> cfg_thresh = None, cfg_web_port = None \<rparr> None) \<and>
   fst (check_web_requests (start_monitoring_web
         (init_shared_state \<lparr> cfg_thresh = None, cfg_web_port = None \<rparr> None))) = (True, False) \<and>
   fst (check_web_requests (snd (check_web_requests (start_monitoring_web
         (init_shared_state \<lparr> cfg_thresh = None, cfg_web_port = None \<rparr> None))))) = (False, False)"
proof -
  have h: "\<not> web_stop_requested (init_shared_state \<lparr> cfg_thresh = None, cfg_web_port = None \<rparr> None)"
    by (simp add: init_shared_state_def)
  show ?thesis
    using h start_request_delivered_once [OF h] by simp
qed

subsection \<open>Level of a silent buffer\<close>

text \<open>
  C1. For a non-empty buffer whose samples are all zero, lines 280--282 of the monitor
  loop raise nothing and return the level \<open>20 * log10 (0 + 1e-10) = -200\<close>, which is at
  most \<open>-180\<close> dB.
\<close>

theorem silent_buffer_level:
  assumes "rec_flat \<noteq> []" and "list_all (\<lambda>r. r = Fin 0) rec_flat"
  shows "\<exists>db. monitor_level rec_flat = Inr db \<and> db = -200 \<and> db \<le> -180"
  using monitor_level_silence [OF assms] by simp

theorem silent_buffer_level_witness:
  "replicate 4410 (Fin 0) \<noteq> [] \<and> list_all (\<lambda>r. r = Fin 0) (replicate 4410 (Fin 0)) \<and>
   (\<exists>db. monitor_level (replicate 4410 (Fin 0)) = Inr db \<and> db = -200 \<and> db \<le> -180)"
proof -
  have a: "replicate 4410 (Fin 0) \<noteq> []" by simp
  have b: "list_all (\<lambda>r. r = Fin 0) (replicate 4410 (Fin 0))" by (simp add: list_all_iff)
  show ?thesis using a b silent_buffer_level [OF a b] by blast
qed

subsection \<open>Validation and queueing of spoken messages\<close>

lemma send_message_string:
  assumes "data_get_message data = Inr (JString raw)"
  shows "send_message (Inr data) s =
     (if strip raw = []
      then (\<lparr> r_success = False, r_error = Some (Text ''No message provided''),
              r_message = None \<rparr>, s)
      else if length (strip raw) > 500
      then (\<lparr> r_success = False,
              r_error = Some (Text ''Message too long (max 500 characters)''),
              r_message = None \<rparr>, s)
      else (\<lparr> r_success = True, r_error = None,
              r_message = Some ''Message queued for speech'' \<rparr>,
            add_tts_message (strip raw) s))"
  using assms by (simp add: send_message_def send_message_body_def try_bind_def json_strip_def)

lemma add_tts_message_stripped:
  "strip raw \<noteq> [] \<Longrightarrow>
   add_tts_message (strip raw) s =
     (if tts_engine s = None then s else s\<lparr> tts_queue := tts_queue s @ [strip raw] \<rparr>)"
  by (simp add: add_tts_message_def strip_idem)

lemma add_tts_message_no_engine: "tts_engine s = None \<Longrightarrow> add_tts_message m s = s"
  by (simp add: add_tts_message_def)

lemma send_message_response_independent:
  "fst (send_message body s) = fst (send_message body s')"
  by (auto simp: send_message_def send_message_body_def try_bind_def
           split: sum.splits if_splits)

lemma strip_replicate_a: "strip (replicate n (97::nat)) = replicate n 97"
proof (cases n)
  case 0
  then show ?thesis by (simp add: strip_def)
next
  case (Suc k)
  have "\<not> py_isspace 97" by (simp add: py_isspace_def)
  then have "dropWhile py_isspace (replicate n (97::nat)) = replicate n 97"
    using Suc by simp
  then show ?thesis by (simp add: strip_def)
qed

lemma get_message_literal:
  "data_get_message (JObject [(''message'', JString raw)]) = Inr (JString raw)"
  by (simp add: data_get_message_def)

text \<open>
  The engine failed to initialise: the message \<^verbatim>\<open>hi\<close> is accepted with success, and the
  queue is still empty afterwards.
\<close>

theorem send_message_not_enqueued_counterexample:
  "r_success (fst (send_message (Inr (JObject [(''message'', JString [104, 105])]))
      (init_shared_state \<lparr> cfg_thresh = None, cfg_web_port = None \<rparr>
         (Some (LibraryError ''no driver''))))) \<and>
   tts_queue (snd (send_message (Inr (JObject [(''message'', JString [104, 105])]))
      (init_shared_state \<lparr> cfg_thresh = None, cfg_web_port = None \<rparr>
         (Some (LibraryError ''no driver''))))) = []"
  by (simp add: send_message_def send_message_body_def try_bind_def json_strip_def
        data_get_message_def strip_def py_isspace_def add_tts_message_def init_shared_state_def)

text \<open>
  C3 (amended). When the request carries a string as its message: a message that is empty
  after trimming is refused with \<^verbatim>\<open>No message provided\<close>; a trimmed message of more than
  500 characters is refused with \<^verbatim>\<open>Message too long (max 500 characters)\<close>; any other
  message is answered with success, and the trimmed message is appended to the speech queue
  exactly when the speech engine exists. A refused request leaves the state as it was.
\<close>

theorem send_message_outcomes:
  assumes "data_get_message data = Inr (JString raw)"
  shows "(strip raw = [] \<longrightarrow>
            send_message (Inr data) s =
              (\<lparr> r_success = False, r_error = Some (Text ''No message provided''),
                 r_message = None \<rparr>, s)) \<and>
         (length (strip raw) > 500 \<longrightarrow>
            send_message (Inr data) s =
              (\<lparr> r_success = False,
                 r_error = Some (Text ''Message too long (max 500 characters)''),
                 r_message = None \<rparr>, s)) \<and>
         (strip raw \<noteq> [] \<and> length (strip raw) \<le> 500 \<longrightarrow>
            send_message (Inr data) s =
              (\<lparr> r_success = True, r_error = None,
                 r_message = Some ''Message queued for speech'' \<rparr>,
               if tts_engine s = None then s
               else s\<lparr> tts_queue := tts_queue s @ [strip raw] \<rparr>))"
  using send_message_string [OF assms, of s] add_tts_message_stripped [of raw s]
  by auto

theorem send_message_outcomes_witness:
  "send_message (Inr (JObject [(''message'', JString [32, 32])]))
     (init_shared_state \<lparr> cfg_thresh = None, cfg_web_port = None \<rparr> None) =
     (\<lparr> r_success = False, r_error = Some (Text ''No message provided''), r_message = None \<rparr>,
      init_shared_state \<lparr> cfg_thresh = None, cfg_web_port = None \<rparr> None) \<and>
   send_message (Inr (JObject [(''message'', JString (replicate 501 97))]))
     (init_shared_state \<lparr> cfg_thresh = None, cfg_web_port = None \<rparr> None) =
     (\<lparr> r_success = False, r_error = Some (Text ''Message too long (max 500 characters)''),
        r_message = None \<rparr>,
      init_shared_state \<lparr> cfg_thresh = None, cfg_web_port = None \<rparr> None) \<and>
   send_message (Inr (JObject [(''message'', JString (replicate 500 97))]))
     (init_shared_state \<lparr> cfg_thresh = None, cfg_web_port = None \<rparr> None) =
     (\<lparr> r_success = True, r_error = None, r_message = Some ''Message queued for speech'' \<rparr>,
      (init_shared_state \<lparr> cfg_thresh = None, cfg_web_port = None \<rparr> None)
        \<lparr> tts_queue := [replicate 500 97] \<rparr>)"
proof -
  let ?s = "init_shared_state \<lparr> cfg_thresh = None, cfg_web_port = None \<rparr> None"
  have e: "tts_engine ?s \<noteq> None" "tts_queue ?s = []"
    by (simp_all add: init_shared_state_def)
  have sp: "strip [32, 32] = []" by (simp add: strip_def py_isspace_def)
  show ?thesis
    using send_message_outcomes [OF get_message_literal [of "[32, 32]"], of ?s]
      send_message_outcomes [OF get_message_literal [of "replicate 501 97"], of ?s]
      send_message_outcomes [OF get_message_literal [of "replicate 500 97"], of ?s]
      e sp
    by (simp add: strip_replicate_a)
qed

text \<open>
  C10. Without a speech engine \<^verbatim>\<open>add_tts_message\<close> changes nothing, whatever the message;
  \<^verbatim>\<open>/send_message\<close> still answers a valid message with success and leaves the queue as
  it was; and its answer is the one it would give with an engine.
\<close>

theorem dropped_without_engine:
  assumes "tts_engine s = None"
  shows "add_tts_message m s = s \<and>
         (data_get_message data = Inr (JString raw) \<and> strip raw \<noteq> [] \<and>
          length (strip raw) \<le> 500 \<longrightarrow>
            send_message (Inr data) s =
              (\<lparr> r_success = True, r_error = None,
                 r_message = Some ''Message queued for speech'' \<rparr>, s)) \<and>
         fst (send_message body s) = fst (send_message body (s\<lparr> tts_engine := Some e \<rparr>))"
proof -
  have a: "add_tts_message m s = s"
    using assms by (rule add_tts_message_no_engine)
  have b: "data_get_message data = Inr (JString raw) \<and> strip raw \<noteq> [] \<and>
          length (strip raw) \<le> 500 \<longrightarrow>
            send_message (Inr data) s =
              (\<lparr> r_success = True, r_error = None,
                 r_message = Some ''Message queued for speech'' \<rparr>, s)"
    using assms by (auto simp: send_message_string add_tts_message_no_engine)
  show ?thesis
    using a b send_message_response_independent by blast
qed

theorem dropped_without_engine_witness:
  "tts_engine (init_shared_state \<lparr> cfg_thresh = None, cfg_web_port = None \<rparr>
      (Some (LibraryError ''no driver''))) = None \<and>
   add_tts_message [104, 105]
     (init_shared_state \<lparr> cfg_thresh = None, cfg_web_port = None \<rparr>
        (Some (LibraryError ''no driver''))) =
     init_shared_state \<lparr> cfg_thresh = None, cfg_web_port = None \<rparr>
        (Some (LibraryError ''no driver'')) \<and>
   send_message (Inr (JObject [(''message'', JString [104, 105])]))
     (init_shared_state \<lparr> cfg_thresh = None, cfg_web_port = None \<rparr>
        (Some (LibraryError ''no driver''))) =
     (\<lparr> r_success = True, r_error = None, r_message = Some ''Message queued for speech'' \<rparr>,
      init_shared_state \<lparr> cfg_thresh = None, cfg_web_port = None \<rparr>
        (Some (LibraryError ''no driver'')))"
proof -
  let ?s = "init_shared_state \<lparr> cfg_thresh = None, cfg_web_port = None \<rparr>
      (Some (LibraryError ''no driver''))"
  have n: "tts_engine ?s = None" by (simp add: init_shared_state_def)
  have sp: "strip [104, 105] = [104, 105]" by (simp add: strip_def py_isspace_def)
  show ?thesis
    using n dropped_without_engine [OF n, of "[104, 105]"
        "JObject [(''message'', JString [104, 105])]" "[104, 105]"]
      get_message_literal [of "[104, 105]"] sp
    by simp
qed

subsection \<open>Tone synthesis, on every platform\<close>

lemma try_bind_Inr:
  "try_bind r f = Inr y \<Longrightarrow> \<exists>v. r = Inr v \<and> f v = Inr y"
  by (cases r) (simp_all add: try_bind_def)

lemma map_try_length: "map_try f xs = Inr ys \<Longrightarrow> length ys = length xs"
proof (induction xs arbitrary: ys)
  case Nil
  then show ?case by simp
next
  case (Cons x xs)
  from Cons.prems obtain y where "f x = Inr y"
    and r: "try_bind (map_try f xs) (\<lambda>ys. Inr (y # ys)) = Inr ys"
    by (auto dest: try_bind_Inr)
  from r obtain zs where zs: "map_try f xs = Inr zs" and "ys = y # zs"
    by (auto dest: try_bind_Inr)
  with Cons.IH [OF zs] show ?case by simp
qed

lemma linspace_length:
  assumes "linspace fp start stop num = Inr t"
  shows "int (length t) = (if num \<le> 1 then 1 else num)"
proof (cases "num \<le> 1")
  case True
  with assms show ?thesis by (auto simp: linspace_def)
next
  case False
  with assms obtain d step where
    "map_try (\<lambda>i. try_bind (py_mul fp step (PInt (int i))) (\<lambda>p. py_add fp start p))
       [0..<nat num] = Inr t"
    by (auto simp: linspace_def dest!: try_bind_Inr)
  then have "length t = length [0..<nat num]" by (rule map_try_length)
  with False show ?thesis by simp
qed

lemma struct_pack_h_length: "struct_pack_h audio = Inr ws \<Longrightarrow> length ws = length audio"
  by (auto simp: struct_pack_h_def split: if_splits)

lemma wave_length:
  assumes "(if shape = ''Sine'' then sine_wave fp freq t
            else if shape = ''Square''
              then try_bind (sine_wave fp freq t) (\<lambda>s. Inr (sign s))
            else saw_wave fp freq t) = Inr wave"
  shows "length wave = length t"
proof -
  consider "shape = ''Sine''" | "shape \<noteq> ''Sine''" "shape = ''Square''"
    | "shape \<noteq> ''Sine''" "shape \<noteq> ''Square''" by blast
  then show ?thesis
  proof cases
    case 1
    with assms show ?thesis by (simp add: sine_wave_def map_try_length)
  next
    case 2
    with assms obtain s where "sine_wave fp freq t = Inr s" "wave = sign s"
      by (auto dest!: try_bind_Inr)
    then show ?thesis by (simp add: sine_wave_def sign_def map_try_length)
  next
    case 3
    with assms show ?thesis by (simp add: saw_wave_def map_try_length)
  qed
qed

lemma gen_wave_Inr_parts:
  assumes "gen_wave fp shape freq ms volume = Inr (audio, fs)"
  shows "\<exists>num. sample_count fp 44100 ms = Inr num \<and> fs = 44100 \<and>
           int (length audio) = (if num \<le> 1 then 1 else num)"
proof -
  from assms obtain stop num t wave au where
    n: "sample_count fp 44100 ms = Inr num" and
    t: "linspace fp (PInt 0) stop num = Inr t" and
    w: "(if shape = ''Sine'' then sine_wave fp freq t
         else if shape = ''Square''
           then try_bind (sine_wave fp freq t) (\<lambda>s. Inr (sign s))
         else saw_wave fp freq t) = Inr wave" and
    q: "quantize fp volume wave = Inr au" and
    p: "struct_pack_h au = Inr audio" and
    f: "fs = 44100"
    unfolding gen_wave_def Let_def
    by (auto dest!: try_bind_Inr)
  have "length audio = length t"
    using struct_pack_h_length [OF p] map_try_length [OF q [unfolded quantize_def]]
      wave_length [OF w] by simp
  with linspace_length [OF t] n f show ?thesis by auto
qed

lemma py_truediv_float: "py_truediv fp a b = Inr q \<Longrightarrow> \<exists>x. q = PFloat x"
  by (cases "(fp, a, b)" rule: py_truediv.cases)
     (auto simp: try_bind_def split: if_splits option.splits sum.splits)

lemma py_int_float:
  "py_int (PFloat x) = Inr num \<Longrightarrow>
   \<exists>r. x = Fin r \<and> num = (if 0 \<le> r then \<lfloor>r\<rfloor> else \<lceil>r\<rceil>)"
  by (cases x) simp_all

lemma sample_count_Inr:
  assumes "sample_count fp fs ms = Inr num"
  shows "\<exists>a r. py_mul fp (PInt fs) ms = Inr a \<and> py_truediv fp a (PInt 1000) = Inr (PFloat (Fin r)) \<and>
           num = (if 0 \<le> r then \<lfloor>r\<rfloor> else \<lceil>r\<rceil>)"
proof -
  from assms obtain a q where a: "py_mul fp (PInt fs) ms = Inr a"
    and q: "py_truediv fp a (PInt 1000) = Inr q" and i: "py_int q = Inr num"
    unfolding sample_count_def by (auto dest!: try_bind_Inr)
  from py_truediv_float [OF q] obtain x where x: "q = PFloat x" by blast
  with i py_int_float obtain r where "x = Fin r" "num = (if 0 \<le> r then \<lfloor>r\<rfloor> else \<lceil>r\<rceil>)"
    by blast
  with a q x show ?thesis by blast
qed

text \<open>
  C5 (amended). On every platform and for every shape, frequency, volume and duration for
  which \<^verbatim>\<open>gen_wave\<close> returns: \<^verbatim>\<open>fs*ms/1000\<close> is a finite float, the number of points is
  that float truncated toward zero, and when this number is at least 1 it is the number
  of 16-bit samples returned.
\<close>

theorem gen_wave_sample_count:
  assumes "gen_wave fp shape freq ms volume = Inr (audio, fs)"
  shows "\<exists>num a r.
           sample_count fp 44100 ms = Inr num \<and>
           py_mul fp (PInt 44100) ms = Inr a \<and>
           py_truediv fp a (PInt 1000) = Inr (PFloat (Fin r)) \<and>
           num = (if 0 \<le> r then \<lfloor>r\<rfloor> else \<lceil>r\<rceil>) \<and>
           (1 \<le> num \<longrightarrow> int (length audio) = num)"
proof -
  from gen_wave_Inr_parts [OF assms] obtain num where
    n: "sample_count fp 44100 ms = Inr num" and
    l: "int (length audio) = (if num \<le> 1 then 1 else num)" by blast
  from sample_count_Inr [OF n] obtain a r where
    "py_mul fp (PInt 44100) ms = Inr a" "py_truediv fp a (PInt 1000) = Inr (PFloat (Fin r))"
    "num = (if 0 \<le> r then \<lfloor>r\<rfloor> else \<lceil>r\<rceil>)" by blast
  moreover from l have "1 \<le> num \<longrightarrow> int (length audio) = num" by auto
  ultimately show ?thesis using n by blast
qed

subsection \<open>Tone synthesis, on the platform without rounding\<close>

lemma exact_sel:
  "fl_add exact_fpu = exact_op (+)" "fl_sub exact_fpu = exact_op (-)"
  "fl_mul exact_fpu = exact_op (*)" "fl_div exact_fpu = exact_op (/)"
  "fl_sin exact_fpu = exact_sin"
  "fl_of_int exact_fpu i = Some (Fin (real_of_int i))"
  "fl_int_div exact_fpu i j = Some (Fin (real_of_int i / real_of_int j))"
  by (simp_all add: exact_fpu_def)

lemma num_val_cases:
  assumes "num_val a = Some x"
  obtains i where "a = PInt i" "x = real_of_int i" | "a = PFloat (Fin x)"
  using assms by (cases a rule: num_val.cases) auto

lemma to_float_exact: "num_val a = Some x \<Longrightarrow> to_float exact_fpu a = Inr (Fin x)"
  by (erule num_val_cases) (simp_all add: to_float_def exact_sel)

lemma float_op_exact:
  "num_val a = Some x \<Longrightarrow> num_val b = Some y \<Longrightarrow>
   float_op exact_fpu (exact_op f) a b = Inr (PFloat (Fin (f x y)))"
  by (simp add: float_op_def to_float_exact try_bind_def)

lemma py_mul_exact:
  assumes "num_val a = Some x" "num_val b = Some y"
  shows "\<exists>c. py_mul exact_fpu a b = Inr c \<and> num_val c = Some (x * y)"
  using assms float_op_exact [OF assms, of "(*)"]
  by (cases "(exact_fpu, a, b)" rule: py_mul.cases) (auto simp: exact_sel)

lemma py_add_exact:
  assumes "num_val a = Some x" "num_val b = Some y"
  shows "\<exists>c. py_add exact_fpu a b = Inr c \<and> num_val c = Some (x + y)"
  using assms float_op_exact [OF assms, of "(+)"]
  by (cases "(exact_fpu, a, b)" rule: py_add.cases) (auto simp: exact_sel)

lemma py_sub_exact:
  assumes "num_val a = Some x" "num_val b = Some y"
  shows "\<exists>c. py_sub exact_fpu a b = Inr c \<and> num_val c = Some (x - y)"
  using assms float_op_exact [OF assms, of "(-)"]
  by (cases "(exact_fpu, a, b)" rule: py_sub.cases) (auto simp: exact_sel)

lemma py_truediv_exact:
  assumes "num_val a = Some x" "num_val b = Some y" "y \<noteq> 0"
  shows "py_truediv exact_fpu a b = Inr (PFloat (Fin (x / y)))"
  using assms
  by (cases "(exact_fpu, a, b)" rule: py_truediv.cases)
     (auto simp: to_float_exact try_bind_def exact_sel elim!: num_val_cases)

lemma math_sin_exact:
  "num_val a = Some x \<Longrightarrow> math_sin exact_fpu a = Inr (PFloat (Fin (sin x)))"
  by (simp add: math_sin_def to_float_exact try_bind_def exact_sel)

lemma math_floor_val: "num_val a = Some x \<Longrightarrow> math_floor a = Inr \<lfloor>x\<rfloor>"
  by (erule num_val_cases) simp_all

lemma py_int_val:
  "num_val a = Some x \<Longrightarrow> py_int a = Inr (if 0 \<le> x then \<lfloor>x\<rfloor> else \<lceil>x\<rceil>)"
  by (erule num_val_cases) simp_all

lemma map_try_all:
  assumes "\<And>x. x \<in> set xs \<Longrightarrow> \<exists>y. f x = Inr y \<and> P y"
  shows "\<exists>ys. map_try f xs = Inr ys \<and> list_all P ys"
  using assms
proof (induction xs)
  case Nil
  then show ?case by simp
next
  case (Cons x xs)
  from Cons.prems [of x] obtain y where y: "f x = Inr y" "P y" by auto
  from Cons.IH Cons.prems obtain ys where ys: "map_try f xs = Inr ys" "list_all P ys"
    by auto
  from y ys show ?case by (simp add: try_bind_def)
qed

lemma linspace_exact:
  assumes "num_val stop = Some s"
  shows "\<exists>t. linspace exact_fpu (PInt 0) stop num = Inr t \<and>
             list_all (\<lambda>a. \<exists>x. num_val a = Some x) t"
proof (cases "num \<le> 1")
  case True
  then show ?thesis by (simp add: linspace_def)
next
  case False
  have z: "num_val (PInt 0) = Some 0" by simp
  from py_sub_exact [OF assms z] obtain d where
    d: "py_sub exact_fpu stop (PInt 0) = Inr d" "num_val d = Some (s - 0)" by blast
  have n: "num_val (PInt (num - 1)) = Some (real_of_int (num - 1))" by simp
  from False have nz: "real_of_int (num - 1) \<noteq> 0" by simp
  note st = py_truediv_exact [OF d(2) n nz]
  let ?step = "PFloat (Fin ((s - 0) / real_of_int (num - 1)))"
  have el: "\<exists>y. try_bind (py_mul exact_fpu ?step (PInt (int i)))
                  (\<lambda>p. py_add exact_fpu (PInt 0) p)
            = Inr y \<and> (\<exists>x. num_val y = Some x)" for i
  proof -
    have a: "num_val ?step = Some ((s - 0) / real_of_int (num - 1))" by simp
    have b: "num_val (PInt (int i)) = Some (real_of_int (int i))" by simp
    from py_mul_exact [OF a b] obtain p where
      p: "py_mul exact_fpu ?step (PInt (int i)) = Inr p"
         "num_val p = Some ((s - 0) / real_of_int (num - 1) * real_of_int (int i))" by blast
    from py_add_exact [OF z p(2)] obtain y where
      "py_add exact_fpu (PInt 0) p = Inr y" "\<exists>x. num_val y = Some x" by blast
    with p(1) show ?thesis by (simp add: try_bind_def)
  qed
  have "\<exists>t. map_try (\<lambda>i. try_bind (py_mul exact_fpu ?step (PInt (int i)))
                 (\<lambda>p. py_add exact_fpu (PInt 0) p)) [0..<nat num] = Inr t \<and>
            list_all (\<lambda>a. \<exists>x. num_val a = Some x) t"
    by (rule map_try_all) (rule el)
  then obtain t where
    "map_try (\<lambda>i. try_bind (py_mul exact_fpu ?step (PInt (int i)))
                 (\<lambda>p. py_add exact_fpu (PInt 0) p)) [0..<nat num] = Inr t"
    "list_all (\<lambda>a. \<exists>x. num_val a = Some x) t"
    by blast
  with False d(1) st show ?thesis by (simp add: linspace_def try_bind_def)
qed

lemma sine_wave_exact:
  assumes "num_val freq = Some f" and "list_all (\<lambda>a. \<exists>x. num_val a = Some x) t"
  shows "\<exists>w. sine_wave exact_fpu freq t = Inr w \<and>
             list_all (\<lambda>a. \<exists>x. num_val a = Some x \<and> \<bar>x\<bar> \<le> 1) w"
  unfolding sine_wave_def
proof (rule map_try_all)
  fix ti assume "ti \<in> set t"
  with assms(2) obtain x where x: "num_val ti = Some x" by (auto simp: list_all_iff)
  have two: "num_val (PInt 2) = Some 2" by simp
  have pi: "num_val (PFloat math_pi) = Some (884279719003555 / 281474976710656)"
    by (simp add: math_pi_def)
  from py_mul_exact [OF two pi] obtain a where a: "py_mul exact_fpu (PInt 2) (PFloat math_pi) = Inr a"
    "num_val a = Some (2 * (884279719003555 / 281474976710656))" by blast
  from py_mul_exact [OF a(2) assms(1)] obtain b where b: "py_mul exact_fpu a freq = Inr b"
    "num_val b = Some (2 * (884279719003555 / 281474976710656) * f)" by blast
  from py_mul_exact [OF b(2) x] obtain c where c: "py_mul exact_fpu b ti = Inr c"
    "num_val c = Some (2 * (884279719003555 / 281474976710656) * f * x)" by blast
  note s = math_sin_exact [OF c(2)]
  show "\<exists>y. try_bind (py_mul exact_fpu (PInt 2) (PFloat math_pi))
               (\<lambda>a. try_bind (py_mul exact_fpu a freq)
                  (\<lambda>b. try_bind (py_mul exact_fpu b ti) (math_sin exact_fpu))) = Inr y \<and>
            (\<exists>x. num_val y = Some x \<and> \<bar>x\<bar> \<le> 1)"
    using a(1) b(1) c(1) s by (simp add: try_bind_def)
qed

lemma sign_unit: "list_all (\<lambda>a. \<exists>x. num_val a = Some x \<and> \<bar>x\<bar> \<le> 1) (sign w)"
  by (simp add: sign_def list_all_iff)

lemma saw_wave_exact:
  assumes "num_val freq = Some f" and "list_all (\<lambda>a. \<exists>x. num_val a = Some x) t"
  shows "\<exists>w. saw_wave exact_fpu freq t = Inr w \<and>
             list_all (\<lambda>a. \<exists>x. num_val a = Some x \<and> \<bar>x\<bar> \<le> 1) w"
  unfolding saw_wave_def
proof (rule map_try_all)
  fix ti assume "ti \<in> set t"
  with assms(2) obtain x where x: "num_val ti = Some x" by (auto simp: list_all_iff)
  from py_mul_exact [OF x assms(1)] obtain m where m: "py_mul exact_fpu ti freq = Inr m"
    "num_val m = Some (x * f)" by blast
  have h: "num_val (PFloat (Fin (1 / 2))) = Some (1 / 2)" by simp
  from py_add_exact [OF h m(2)] obtain a where a: "py_add exact_fpu (PFloat (Fin (1 / 2))) m = Inr a"
    "num_val a = Some (1 / 2 + x * f)" by blast
  note k = math_floor_val [OF a(2)]
  have kv: "num_val (PInt \<lfloor>1 / 2 + x * f\<rfloor>) = Some (real_of_int \<lfloor>1 / 2 + x * f\<rfloor>)" by simp
  from py_sub_exact [OF m(2) kv] obtain d where d: "py_sub exact_fpu m (PInt \<lfloor>1 / 2 + x * f\<rfloor>) = Inr d"
    "num_val d = Some (x * f - real_of_int \<lfloor>1 / 2 + x * f\<rfloor>)" by blast
  have two: "num_val (PInt 2) = Some 2" by simp
  from py_mul_exact [OF two d(2)] obtain y where y: "py_mul exact_fpu (PInt 2) d = Inr y"
    "num_val y = Some (2 * (x * f - real_of_int \<lfloor>1 / 2 + x * f\<rfloor>))" by blast
  define e where "e = x * f - real_of_int \<lfloor>1 / 2 + x * f\<rfloor>"
  have "\<bar>e\<bar> \<le> 1 / 2" unfolding e_def by linarith
  then have "\<bar>2 * e\<bar> \<le> 1" by simp
  then have bound: "\<bar>2 * (x * f - real_of_int \<lfloor>1 / 2 + x * f\<rfloor>)\<bar> \<le> 1" unfolding e_def .
  show "\<exists>y. try_bind (py_mul exact_fpu ti freq)
               (\<lambda>m1. try_bind (py_mul exact_fpu ti freq)
                  (\<lambda>m2. try_bind (py_add exact_fpu (PFloat (Fin (1 / 2))) m2)
                     (\<lambda>a. try_bind (math_floor a)
                        (\<lambda>k. try_bind (py_sub exact_fpu m1 (PInt k))
                           (py_mul exact_fpu (PInt 2)))))) = Inr y \<and>
            (\<exists>x. num_val y = Some x \<and> \<bar>x\<bar> \<le> 1)"
    using m(1) a(1) k d(1) y bound by (simp add: try_bind_def)
qed

lemma try_bind_Inr_eq: "r = Inr v \<Longrightarrow> try_bind r f = f v"
  by (simp add: try_bind_def)

lemma trunc_bounds:
  "\<bar>x\<bar> \<le> 32767 \<Longrightarrow>
   - 32768 \<le> (if 0 \<le> x then \<lfloor>x\<rfloor> else \<lceil>x\<rceil>) \<and> (if 0 \<le> x then \<lfloor>x\<rfloor> else \<lceil>x\<rceil>) \<le> 32767"
  by (auto simp: floor_le_iff le_ceiling_iff)

lemma scaled_le:
  assumes "\<bar>w\<bar> \<le> (1::real)" "\<bar>v\<bar> \<le> 100"
  shows "\<bar>w * (v / 100) * 32767\<bar> \<le> 32767"
proof -
  have "\<bar>w\<bar> * \<bar>v / 100\<bar> \<le> 1 * 1"
    using assms by (intro mult_mono) simp_all
  moreover have "\<bar>w * (v / 100) * 32767\<bar> = (\<bar>w\<bar> * \<bar>v / 100\<bar>) * 32767"
    by (simp only: abs_mult)
  ultimately show ?thesis by linarith
qed

lemma quantize_exact:
  assumes "num_val volume = Some v" and "\<bar>v\<bar> \<le> 100"
    and "list_all (\<lambda>a. \<exists>x. num_val a = Some x \<and> \<bar>x\<bar> \<le> 1) wave"
  shows "\<exists>audio. quantize exact_fpu volume wave = Inr audio \<and>
             list_all (\<lambda>a. - 32768 \<le> a \<and> a \<le> 32767) audio"
  unfolding quantize_def
proof (rule map_try_all)
  fix w assume "w \<in> set wave"
  with assms(3) obtain x where x: "num_val w = Some x" "\<bar>x\<bar> \<le> 1" by (auto simp: list_all_iff)
  have h: "num_val (PInt 100) = Some 100" by simp
  have vq: "py_truediv exact_fpu volume (PInt 100) = Inr (PFloat (Fin (v / 100)))"
    using py_truediv_exact [OF assms(1) h] by simp
  have vv: "num_val (PFloat (Fin (v / 100))) = Some (v / 100)" by simp
  from py_mul_exact [OF x(1) vv] obtain p where p: "py_mul exact_fpu w (PFloat (Fin (v / 100))) = Inr p"
    "num_val p = Some (x * (v / 100))" by blast
  have k: "num_val (PInt 32767) = Some 32767" by simp
  from py_mul_exact [OF p(2) k] obtain r where r: "py_mul exact_fpu p (PInt 32767) = Inr r"
    "num_val r = Some (x * (v / 100) * 32767)" by blast
  note i = py_int_val [OF r(2)]
  note b = trunc_bounds [OF scaled_le [OF x(2) assms(2)]]
  show "\<exists>y. try_bind (py_truediv exact_fpu volume (PInt 100))
               (\<lambda>v. try_bind (py_mul exact_fpu w v)
                  (\<lambda>p. try_bind (py_mul exact_fpu p (PInt 32767)) py_int)) = Inr y \<and>
            - 32768 \<le> y \<and> y \<le> 32767"
    using vq p(1) r(1) i b by (simp add: try_bind_def)
qed

lemma sample_count_exact:
  assumes "num_val ms = Some m"
  shows "sample_count exact_fpu 44100 ms =
           Inr (if 0 \<le> 44100 * m / 1000 then \<lfloor>44100 * m / 1000\<rfloor> else \<lceil>44100 * m / 1000\<rceil>)"
proof -
  have f: "num_val (PInt 44100) = Some 44100" by simp
  from py_mul_exact [OF f assms] obtain a where a: "py_mul exact_fpu (PInt 44100) ms = Inr a"
    "num_val a = Some (44100 * m)" by blast
  have k: "num_val (PInt 1000) = Some 1000" by simp
  have q: "py_truediv exact_fpu a (PInt 1000) = Inr (PFloat (Fin (44100 * m / 1000)))"
    using py_truediv_exact [OF a(2) k] by simp
  show ?thesis
    unfolding sample_count_def using a(1) q by (simp add: try_bind_def)
qed

lemma gen_wave_exact_returns:
  assumes "num_val freq = Some f" and "num_val ms = Some m"
    and "num_val volume = Some v" and "\<bar>v\<bar> \<le> 100"
  shows "\<exists>audio. gen_wave exact_fpu shape freq ms volume = Inr (audio, 44100)"
proof -
  have k: "num_val (PInt 1000) = Some 1000" by simp
  have stop: "py_truediv exact_fpu ms (PInt 1000) = Inr (PFloat (Fin (m / 1000)))"
    using py_truediv_exact [OF assms(2) k] by simp
  note n = sample_count_exact [OF assms(2)]
  let ?num = "if 0 \<le> 44100 * m / 1000 then \<lfloor>44100 * m / 1000\<rfloor> else \<lceil>44100 * m / 1000\<rceil>"
  have sv: "num_val (PFloat (Fin (m / 1000))) = Some (m / 1000)" by simp
  from linspace_exact [OF sv, of ?num] obtain t where
    t: "linspace exact_fpu (PInt 0) (PFloat (Fin (m / 1000))) ?num = Inr t"
       "list_all (\<lambda>a. \<exists>x. num_val a = Some x) t" by blast
  have "\<exists>wave. (if shape = ''Sine'' then sine_wave exact_fpu freq t
                else if shape = ''Square''
                  then try_bind (sine_wave exact_fpu freq t) (\<lambda>s. Inr (sign s))
                else saw_wave exact_fpu freq t) = Inr wave \<and>
          list_all (\<lambda>a. \<exists>x. num_val a = Some x \<and> \<bar>x\<bar> \<le> 1) wave"
    using sine_wave_exact [OF assms(1) t(2)] saw_wave_exact [OF assms(1) t(2)] sign_unit
    by (auto simp: try_bind_def)
  then obtain wave where
    w: "(if shape = ''Sine'' then sine_wave exact_fpu freq t
         else if shape = ''Square''
           then try_bind (sine_wave exact_fpu freq t) (\<lambda>s. Inr (sign s))
         else saw_wave exact_fpu freq t) = Inr wave"
       "list_all (\<lambda>a. \<exists>x. num_val a = Some x \<and> \<bar>x\<bar> \<le> 1) wave" by blast
  from quantize_exact [OF assms(3,4) w(2)] obtain audio where
    a: "quantize exact_fpu volume wave = Inr audio"
       "list_all (\<lambda>a. - 32768 \<le> a \<and> a \<le> 32767) audio" by blast
  from a(2) have p: "struct_pack_h audio = Inr (map word_of_int audio)"
    by (simp add: struct_pack_h_def)
  show ?thesis
    unfolding gen_wave_def Let_def
    apply (subst try_bind_Inr_eq [OF stop])
    apply (subst try_bind_Inr_eq [OF n])
    apply (subst try_bind_Inr_eq [OF t(1)])
    apply (subst try_bind_Inr_eq [OF w(1)])
    apply (subst try_bind_Inr_eq [OF a(1)])
    apply (subst try_bind_Inr_eq [OF p])
    apply simp
    done
qed

text \<open>
  A tone of 6 ms has 264 samples on every platform whose quotient \<open>264600/1000\<close> lies
  between 264 and 265, as the double \<open>264.6\<close> does.
\<close>

lemma six_ms_any_platform:
  assumes "gen_wave fp shape freq (PInt 6) volume = Inr (audio, fs)"
    and "fl_int_div fp 264600 1000 = Some (Fin r)" and "264 \<le> r" and "r < 265"
  shows "length audio = 264"
proof -
  from gen_wave_Inr_parts [OF assms(1)] obtain num where
    n: "sample_count fp 44100 (PInt 6) = Inr num"
    and l: "int (length audio) = (if num \<le> 1 then 1 else num)" by blast
  from assms(3,4) have "\<lfloor>r\<rfloor> = 264" by linarith
  with n assms(2,3) have "num = 264"
    by (simp add: sample_count_def try_bind_def)
  with l show ?thesis by simp
qed

text \<open>
  A tone of 6 ms has 264 samples, and \<open>44100 * 6 / 1000 = 264.6\<close> rounds to 265.
\<close>

theorem gen_wave_length_counterexample:
  "map_sum id (length \<circ> fst)
     (gen_wave exact_fpu ''Sine'' (PInt 1000) (PInt 6) (PInt 50)) = Inr 264 \<and>
   round (44100 * 6 / 1000 :: real) = 265 \<and>
   round_half_even (44100 * 6 / 1000) = 265"
proof -
  have f: "num_val (PInt 1000) = Some 1000" and m: "num_val (PInt 6) = Some 6"
    and v: "num_val (PInt 50) = Some 50" and b: "\<bar>50 :: real\<bar> \<le> 100" by simp_all
  from gen_wave_exact_returns [OF f m v b, of "''Sine''"] obtain audio where
    a: "gen_wave exact_fpu ''Sine'' (PInt 1000) (PInt 6) (PInt 50) = Inr (audio, 44100)" by blast
  have "fl_int_div exact_fpu 264600 1000 = Some (Fin (264600 / 1000))"
    by (simp add: exact_fpu_def)
  from six_ms_any_platform [OF a this] have "length audio = 264" by simp
  with a have 1: "map_sum id (length \<circ> fst)
     (gen_wave exact_fpu ''Sine'' (PInt 1000) (PInt 6) (PInt 50)) = Inr 264" by simp
  have 2: "round (44100 * 6 / 1000 :: real) = 265" by (simp add: round_def)
  have 3: "round_half_even (44100 * 6 / 1000) = 265"
    by (simp add: round_half_even_def Let_def)
  from 1 2 3 show ?thesis by simp
qed

theorem gen_wave_sample_count_witness:
  "\<exists>audio. gen_wave exact_fpu ''Sine'' (PInt 1000) (PInt 200) (PInt 50) = Inr (audio, 44100) \<and>
      int (length audio) = 8820"
proof -
  have f: "num_val (PInt 1000) = Some 1000" and m: "num_val (PInt 200) = Some 200"
    and v: "num_val (PInt 50) = Some 50" and b: "\<bar>50 :: real\<bar> \<le> 100" by simp_all
  from gen_wave_exact_returns [OF f m v b, of "''Sine''"] obtain audio where
    a: "gen_wave exact_fpu ''Sine'' (PInt 1000) (PInt 200) (PInt 50) = Inr (audio, 44100)"
    by blast
  from gen_wave_sample_count [OF a] obtain num where
    n: "sample_count exact_fpu 44100 (PInt 200) = Inr num"
    and l: "1 \<le> num \<longrightarrow> int (length audio) = num" by blast
  from n sample_count_exact [OF m] have "num = 8820" by simp
  with l a show ?thesis by auto
qed

subsection \<open>The monitor loop\<close>

lemma play_tone_returns:
  "\<exists>p. play_tone fp shape freq ms vol failure pr = Inr p"
  by (simp add: play_tone_def split: sum.splits)

lemma play_tone_failed:
  "play_tone_body fp shape freq ms vol failure = Inl e \<Longrightarrow>
   play_tone fp shape freq ms vol failure pr = Inr (pr @ [Error_playing_tone e])"
  by (simp add: play_tone_def)

lemma monitor_cycle_capture_error:
  assumes "cur_settings (drain_q_cmd m env) = Some st" and "recording env = Inl e"
  shows "monitor_cycle fp m env =
           Break ((drain_q_cmd m env)\<lparr> q_ui := q_ui m @ [ERR e], stop_evt := True \<rparr>)"
  using assms by (simp add: monitor_cycle_def Let_def drain_q_cmd_def split: if_splits)

lemma q_ui_drain: "q_ui (drain_q_cmd m env) = q_ui m"
  by (simp add: drain_q_cmd_def)

lemma printed_drain: "printed (drain_q_cmd m env) = printed m"
  by (simp add: drain_q_cmd_def)

lemma monitor_cycle_tone_failed:
  assumes "cur_settings (drain_q_cmd m env) = Some st"
    and "recording env = Inr rec_flat"
    and "monitor_level rec_flat = Inr db"
    and "db > s_thresh st"
    and "0 \<le> s_delay st"
    and "play_tone_body fp (s_shape st) (PInt (s_freq st)) (PInt (s_dur st))
           (PInt (s_vol st)) (tone_failure env) = Inl e"
  shows "monitor_cycle fp m env =
           Continue ((drain_q_cmd m env)\<lparr> q_ui := q_ui m @ [DB db],
                                          printed := printed m @ [Error_playing_tone e] \<rparr>)"
  using assms
  by (simp add: monitor_cycle_def Let_def play_tone_failed py_sleep_def q_ui_drain printed_drain)

lemma play_tone_body_device_failure:
  assumes "\<bar>real_of_int vol\<bar> \<le> 100"
  shows "play_tone_body exact_fpu shape (PInt freq) (PInt ms) (PInt vol) (Some e) = Inl e"
proof -
  have f: "num_val (PInt freq) = Some (real_of_int freq)"
    and m: "num_val (PInt ms) = Some (real_of_int ms)"
    and v: "num_val (PInt vol) = Some (real_of_int vol)" by simp_all
  from gen_wave_exact_returns [OF f m v assms, of shape] obtain a where
    "gen_wave exact_fpu shape (PInt freq) (PInt ms) (PInt vol) = Inr (a, 44100)" by blast
  then show ?thesis by (simp add: play_tone_body_def try_bind_def)
qed

lemma play_tone_body_generation_failure:
  "gen_wave fp shape freq ms vol = Inl e \<Longrightarrow>
   play_tone_body fp shape freq ms vol failure = Inl e"
  by (simp add: play_tone_body_def try_bind_def)

lemma full_scale_level:
  "monitor_level (replicate 4410 (Fin 1)) = Inr (20 * log 10 (1 + 1 / 10 ^ 10))"
  by (simp add: monitor_level_def clip_replicate mean_def py_sqrt_def rms_to_db_def py_log10_def
        try_bind_def sum_list_replicate)

lemma full_scale_loud: "20 * log 10 (1 + 1 / 10 ^ 10) > (-30 :: real)"
proof -
  have "0 < log 10 (1 + 1 / 10 ^ 10 :: real)" by (subst zero_less_log_cancel_iff) simp_all
  then show ?thesis by linarith
qed

text \<open>
  C4. In an iteration that has settings and whose recording raises \<open>e\<close>, the loop puts
  \<open>ERR e\<close> on \<^verbatim>\<open>q_ui\<close>, sets \<^verbatim>\<open>stop_evt\<close> and ends: whatever the surroundings would
  offer afterwards is never looked at, so no further capture is attempted.
\<close>

theorem capture_error_stops_loop:
  assumes "\<not> stop_evt m" and "\<not> stop_called env"
    and "cur_settings (drain_q_cmd m env) = Some st"
    and "recording env = Inl e"
  shows "run fp m (env # envs) =
           Exited ((drain_q_cmd m env)\<lparr> q_ui := q_ui m @ [ERR e], stop_evt := True \<rparr>) \<and>
         run fp m (env # envs) = run fp m [env]"
  using assms by (simp add: monitor_cycle_capture_error)

theorem capture_error_stops_loop_witness:
  "\<not> stop_evt (new_monitor []) \<and>
   run exact_fpu (new_monitor [])
     [\<lparr> stop_called = False, q_cmd = [default_settings],
        recording = Inl (LibraryError ''Invalid input device''), tone_failure = None \<rparr>,
      \<lparr> stop_called = False, q_cmd = [], recording = Inr (replicate 4410 (Fin 1)),
        tone_failure = None \<rparr>] =
     Exited \<lparr> cur_settings = Some default_settings,
              q_ui = [ERR (LibraryError ''Invalid input device'')],
              stop_evt = True, printed = [] \<rparr>"
proof -
  let ?env = "\<lparr> stop_called = False, q_cmd = [default_settings],
        recording = Inl (LibraryError ''Invalid input device''), tone_failure = None \<rparr>"
  let ?m = "new_monitor []"
  have 1: "\<not> stop_evt ?m" by (simp add: new_monitor_def)
  have 2: "\<not> stop_called ?env" by simp
  have 3: "cur_settings (drain_q_cmd ?m ?env) = Some default_settings"
    by (simp add: drain_q_cmd_def)
  have 4: "recording ?env = Inl (LibraryError ''Invalid input device'')" by simp
  show ?thesis
    using 1 capture_error_stops_loop [OF 1 2 3 4,
        of exact_fpu "[\<lparr> stop_called = False, q_cmd = [],
              recording = Inr (replicate 4410 (Fin 1)), tone_failure = None \<rparr>]"]
    by (simp add: drain_q_cmd_def new_monitor_def)
qed

text \<open>
  C7. \<^verbatim>\<open>play_tone\<close> returns normally for every input and on every platform. In an
  iteration whose level exceeds the threshold and whose playback fails with \<open>e\<close>, the
  level is published, the error is printed, and the loop goes on with the next iteration.
\<close>

theorem playback_failure_is_caught:
  assumes "\<not> stop_evt m" and "\<not> stop_called env"
    and "cur_settings (drain_q_cmd m env) = Some st"
    and "recording env = Inr rec_flat"
    and "monitor_level rec_flat = Inr db"
    and "db > s_thresh st"
    and "0 \<le> s_delay st"
    and "play_tone_body fp (s_shape st) (PInt (s_freq st)) (PInt (s_dur st))
           (PInt (s_vol st)) (tone_failure env) = Inl e"
  shows "(\<exists>p. play_tone fp' shape freq ms vol failure pr = Inr p) \<and>
         run fp m (env # envs) =
           run fp ((drain_q_cmd m env)\<lparr> q_ui := q_ui m @ [DB db],
                                      printed := printed m @ [Error_playing_tone e] \<rparr>) envs"
  using assms play_tone_returns [of fp' shape freq ms vol failure pr]
  by (simp add: monitor_cycle_tone_failed)

theorem playback_failure_is_caught_witness:
  "\<not> stop_evt (new_monitor []) \<and>
   run exact_fpu (new_monitor [])
     [\<lparr> stop_called = False, q_cmd = [default_settings],
        recording = Inr (replicate 4410 (Fin 1)),
        tone_failure = Some (LibraryError ''Invalid output device'') \<rparr>,
      \<lparr> stop_called = True, q_cmd = [], recording = Inr [], tone_failure = None \<rparr>] =
     Exited \<lparr> cur_settings = Some default_settings,
              q_ui = [DB (20 * log 10 (1 + 1 / 10 ^ 10))],
              stop_evt = True,
              printed = [Error_playing_tone (LibraryError ''Invalid output device'')] \<rparr>"
proof -
  let ?env = "\<lparr> stop_called = False, q_cmd = [default_settings],
        recording = Inr (replicate 4410 (Fin 1)),
        tone_failure = Some (LibraryError ''Invalid output device'') \<rparr>"
  let ?m = "new_monitor []"
  have 1: "\<not> stop_evt ?m" by (simp add: new_monitor_def)
  have 2: "\<not> stop_called ?env" by simp
  have 3: "cur_settings (drain_q_cmd ?m ?env) = Some default_settings"
    by (simp add: drain_q_cmd_def)
  have 4: "recording ?env = Inr (replicate 4410 (Fin 1))" by simp
  have 6: "20 * log 10 (1 + 1 / 10 ^ 10) > s_thresh default_settings"
    using full_scale_loud by (simp add: default_settings_def)
  have 7: "0 \<le> s_delay default_settings" by (simp add: default_settings_def)
  have 8: "play_tone_body exact_fpu (s_shape default_settings) (PInt (s_freq default_settings))
      (PInt (s_dur default_settings)) (PInt (s_vol default_settings))
      (tone_failure ?env) = Inl (LibraryError ''Invalid output device'')"
    by (simp add: play_tone_body_device_failure default_settings_def)
  show ?thesis
    using 1 playback_failure_is_caught [OF 1 2 3 4 full_scale_level 6 7 8,
        of exact_fpu "''Sine''" "PInt 1000" "PInt 200" "PInt 50" None "[]"
           "[\<lparr> stop_called = True, q_cmd = [], recording = Inr [], tone_failure = None \<rparr>]"]
    by (simp add: drain_q_cmd_def new_monitor_def)
qed

subsection \<open>Calibration\<close>

lemma calibrate_silent:
  assumes "device_idx \<noteq> -1"
    and "length rec_flat = 0 \<or> list_all (\<lambda>r. r = Fin 0) rec_flat"
  shows "calibrate device_idx (Inr rec_flat) p =
     Inr (p\<lparr> dialogs := dialogs p @
            [Showerror ''Calibration Error''
               (Plain ''No audio data received. Please check your microphone.'')] \<rparr>)"
  using assms by (auto simp: calibrate_def showerror_def)

text \<open>
  C8. When the recording is empty or all zero, \<^verbatim>\<open>calibrate\<close> returns normally after
  showing the error \<^verbatim>\<open>No audio data received. Please check your microphone.\<close>; it
  computes no threshold and does not set the threshold scale.
\<close>

theorem calibrate_insufficient_signal:
  assumes "device_idx \<noteq> -1"
    and "length rec_flat = 0 \<or> list_all (\<lambda>r. r = Fin 0) rec_flat"
  shows "\<exists>p'. calibrate device_idx (Inr rec_flat) p = Inr p' \<and>
           dialogs p' = dialogs p @
             [Showerror ''Calibration Error''
                (Plain ''No audio data received. Please check your microphone.'')] \<and>
           scale_sets p' = scale_sets p"
  using calibrate_silent [OF assms, of p] by simp

theorem calibrate_insufficient_signal_witness:
  "(0 :: int) \<noteq> -1 \<and> list_all (\<lambda>r. r = Fin 0) (replicate 88200 (Fin 0)) \<and>
   calibrate 0 (Inr (replicate 88200 (Fin 0))) \<lparr> dialogs = [], scale_sets = [] \<rparr> =
     Inr \<lparr> dialogs = [Showerror ''Calibration Error''
                        (Plain ''No audio data received. Please check your microphone.'')],
           scale_sets = [] \<rparr> \<and>
   calibrate 0 (Inr []) \<lparr> dialogs = [], scale_sets = [] \<rparr> =
     Inr \<lparr> dialogs = [Showerror ''Calibration Error''
                        (Plain ''No audio data received. Please check your microphone.'')],
           scale_sets = [] \<rparr>"
proof -
  have 1: "(0 :: int) \<noteq> -1" by simp
  have z: "list_all (\<lambda>r. r = Fin 0) (replicate 88200 (Fin 0))" by (simp add: list_all_iff)
  then have 2: "length (replicate 88200 (Fin 0)) = 0 \<or>
      list_all (\<lambda>r. r = Fin 0) (replicate 88200 (Fin 0))" ..
  have 3: "length ([] :: pyfloat list) = 0 \<or> list_all (\<lambda>r. r = Fin 0) ([] :: pyfloat list)"
    by simp
  obtain p1 where p1:
     "calibrate 0 (Inr (replicate 88200 (Fin 0))) \<lparr> dialogs = [], scale_sets = [] \<rparr> = Inr p1"
     "dialogs p1 = [Showerror ''Calibration Error''
                        (Plain ''No audio data received. Please check your microphone.'')]"
     "scale_sets p1 = []"
    using calibrate_insufficient_signal [OF 1 2, of "\<lparr> dialogs = [], scale_sets = [] \<rparr>"]
    by auto
  obtain p2 where p2: "calibrate 0 (Inr []) \<lparr> dialogs = [], scale_sets = [] \<rparr> = Inr p2"
     "dialogs p2 = [Showerror ''Calibration Error''
                        (Plain ''No audio data received. Please check your microphone.'')]"
     "scale_sets p2 = []"
    using calibrate_insufficient_signal [OF 1 3, of "\<lparr> dialogs = [], scale_sets = [] \<rparr>"]
    by auto
  show ?thesis using 1 z p1 p2 by (cases p1, cases p2) simp
qed

lemma calibration_levels_of_values:
  assumes "finite_values (clip rec_flat (Fin (-1)) (Fin 1)) = Some rs" and "rs \<noteq> []"
  shows "calibration_levels rec_flat =
     (let rms = sqrt (sum_list (map (\<lambda>r. r * r) rs) / real (length rs));
          ambient = (if rms < 1 / 10 ^ 10 then -100 else 20 * log 10 rms);
          new_value = max (py_round1 (ambient + 10)) (-50)
      in Inr (ambient, new_value))"
proof -
  let ?sq = "map (\<lambda>r. r * r) rs"
  have m: "mean ?sq = Inr (sum_list ?sq / real (length rs))"
    using assms(2) by (simp add: mean_def)
  have nn: "0 \<le> sum_list ?sq / real (length rs)"
    using sum_sq_nonneg [of rs] by simp
  then have s: "py_sqrt (sum_list ?sq / real (length rs)) =
      Inr (sqrt (sum_list ?sq / real (length rs)))"
    by (simp add: py_sqrt_def)
  have l: "\<not> r < 1 / 10 ^ 10 \<Longrightarrow> py_log10 r = Inr (log 10 r)" for r :: real
    by (auto simp: py_log10_def not_less intro: less_le_trans [of 0 "1 / 10 ^ 10"])
  show ?thesis
    by (simp add: calibration_levels_def Let_def assms(1) m s try_bind_def l)
qed

lemma round_half_even_near: "\<bar>real_of_int (round_half_even y) - y\<bar> \<le> 1 / 2"
  unfolding round_half_even_def Let_def by (auto split: if_splits)

lemma py_round1_tenth: "\<exists>k::int. py_round1 x = real_of_int k / 10"
  unfolding py_round1_def by blast

lemma py_round1_near: "\<bar>py_round1 x - x\<bar> \<le> 1 / 20"
proof -
  have "\<bar>real_of_int (round_half_even (x * 10)) - x * 10\<bar> \<le> 1 / 2"
    by (rule round_half_even_near)
  then show ?thesis unfolding py_round1_def by (simp add: field_simps abs_if split: if_splits)
qed

text \<open>
  C9. For a recording that is neither empty nor all zero (NaN and infinite samples
  included), \<^verbatim>\<open>calibrate\<close> returns normally; the clipped samples are finite, the ambient
  level is \<open>20 * log10 rms\<close> (or -100 when \<open>rms < 1e-10\<close>); the new threshold is the ambient
  level plus 10 rounded to one decimal, that is a whole number of tenths at most a
  twentieth away from it; the suggested threshold is the new threshold raised to -50 when
  below, with -30 in place of a value that is not finite; it is at least -50, it is what
  the threshold scale is set to and what the dialog reports.
\<close>

theorem calibrate_suggested_threshold:
  assumes "device_idx \<noteq> -1" and "rec_flat \<noteq> []"
    and "\<not> list_all (\<lambda>r. r = Fin 0) rec_flat"
  shows "\<exists>rs rms ambient new_threshold new_value (k :: int).
     finite_values (clip rec_flat (Fin (-1)) (Fin 1)) = Some rs \<and>
     rms = sqrt (sum_list (map (\<lambda>r. r * r) rs) / real (length rs)) \<and>
     ambient = (if rms < 1 / 10 ^ 10 then -100 else 20 * log 10 rms) \<and>
     new_threshold = py_round1 (ambient + 10) \<and>
     new_threshold = real_of_int k / 10 \<and>
     \<bar>new_threshold - (ambient + 10)\<bar> \<le> 1 / 20 \<and>
     new_value = (let v = max new_threshold (-50)
                  in if isfinite (Fin v) then v else -30) \<and>
     - 50 \<le> new_value \<and>
     calibration_levels rec_flat = Inr (ambient, new_value) \<and>
     calibrate device_idx (Inr rec_flat) p =
       Inr (p\<lparr> scale_sets := scale_sets p @ [new_value],
               dialogs := dialogs p @
                 [Showinfo ''Calibration Complete''
                    (Calibration_successful ambient new_value)] \<rparr>)"
proof -
  obtain rs where rs: "finite_values (clip rec_flat (Fin (-1)) (Fin 1)) = Some rs"
    and len: "length rs = length rec_flat"
    using clip_values_exist by blast
  from len assms(2) have ne: "rs \<noteq> []" by auto
  define rms where "rms = sqrt (sum_list (map (\<lambda>r. r * r) rs) / real (length rs))"
  define ambient where "ambient = (if rms < 1 / 10 ^ 10 then -100 else 20 * log 10 rms)"
  define new_threshold where "new_threshold = py_round1 (ambient + 10)"
  define new_value where "new_value = max new_threshold (-50)"
  obtain k :: int where k: "new_threshold = real_of_int k / 10"
    unfolding new_threshold_def using py_round1_tenth by blast
  have near: "\<bar>new_threshold - (ambient + 10)\<bar> \<le> 1 / 20"
    unfolding new_threshold_def by (rule py_round1_near)
  have lv: "calibration_levels rec_flat = Inr (ambient, new_value)"
    unfolding calibration_levels_of_values [OF rs ne] Let_def
      rms_def ambient_def new_threshold_def new_value_def ..
  have nv: "new_value = (let v = max new_threshold (-50)
                  in if isfinite (Fin v) then v else -30)"
    by (simp add: new_value_def)
  have fl: "- 50 \<le> new_value" by (simp add: new_value_def)
  have cl: "calibrate device_idx (Inr rec_flat) p =
       Inr (p\<lparr> scale_sets := scale_sets p @ [new_value],
               dialogs := dialogs p @
                 [Showinfo ''Calibration Complete''
                    (Calibration_successful ambient new_value)] \<rparr>)"
    using assms by (simp add: calibrate_def lv try_bind_def)
  from rs rms_def ambient_def new_threshold_def k near nv fl lv cl show ?thesis by blast
qed

lemma log10_2_lower: "3 / 10 < log 10 (2 :: real)"
proof -
  have a: "log 10 (1000 :: real) = 3" using log_pow_cancel [of "10 :: real" 3] by simp
  have b: "log 10 (1024 :: real) = 10 * log 10 2"
    using log_nat_power [of "2 :: real" 10 10] by simp
  have "log 10 (1000 :: real) < log 10 1024" by simp
  with a b show ?thesis by simp
qed

lemma log10_2_upper: "log 10 (2 :: real) < 28 / 93"
proof -
  have a: "log 10 ((10 :: real) ^ 28) = 28" using log_pow_cancel [of "10 :: real" 28] by simp
  have b: "log 10 ((2 :: real) ^ 93) = 93 * log 10 2"
    using log_nat_power [of "2 :: real" 10 93] by simp
  have "(2 :: real) ^ 93 < 10 ^ 28" by simp
  then have "log 10 ((2 :: real) ^ 93) < log 10 (10 ^ 28)"
    by (subst log_less_cancel_iff) simp_all
  with a b show ?thesis by simp
qed

lemma half_scale_round: "py_round1 (20 * log 10 (1 / 2) + 10) = 4"
proof -
  define x where "x = (20 * log 10 (1 / 2 :: real) + 10) * 10"
  have l: "log 10 (1 / 2 :: real) = - log 10 2" by (rule log_recip)
  have lo: "39 + 1 / 2 < x" and hi: "x < 40"
    using log10_2_lower log10_2_upper unfolding x_def l by simp_all
  then have f: "\<lfloor>x\<rfloor> = 39" by linarith
  with lo have "round_half_even x = 40"
    by (simp add: round_half_even_def Let_def)
  then show ?thesis unfolding py_round1_def x_def by simp
qed

lemma half_scale_levels:
  "calibration_levels (replicate 88200 (Fin (1 / 2))) = Inr (20 * log 10 (1 / 2), 4)"
proof -
  have rs: "finite_values (clip (replicate 88200 (Fin (1 / 2))) (Fin (-1)) (Fin 1)) =
      Some (replicate 88200 (1 / 2))"
    by (simp add: clip_replicate)
  have ne: "replicate 88200 (1 / 2 :: real) \<noteq> []" by simp
  have sq: "sum_list (map (\<lambda>r. r * r) (replicate 88200 (1 / 2 :: real))) /
      real (length (replicate 88200 (1 / 2 :: real))) = 1 / 4"
    by (simp add: sum_list_replicate)
  have s: "sqrt (1 / 4) = 1 / 2"
    by (rule real_sqrt_unique) (simp_all add: power2_eq_square)
  have big: "\<not> (1 / 2 :: real) < 1 / 10 ^ 10" by simp
  show ?thesis
    unfolding calibration_levels_of_values [OF rs ne] sq s Let_def
    by (simp only: big if_False half_scale_round) simp
qed

lemma half_scale_not_silent:
  "\<not> list_all (\<lambda>r. r = Fin 0) (replicate 88200 (Fin (1 / 2)))"
proof -
  have "Fin (1 / 2) \<in> set (replicate 88200 (Fin (1 / 2)))" by simp
  then show ?thesis unfolding list_all_iff by fastforce
qed

lemma odd_recording_levels: "calibration_levels [NaN, PInf, NInf] = Inr (0, 10)"
proof -
  have rs: "finite_values (clip [NaN, PInf, NInf] (Fin (-1)) (Fin 1)) = Some [1, 1, -1]"
    by (simp add: clip_finite)
  have ne: "[1, 1, -1 :: real] \<noteq> []" by simp
  show ?thesis
    unfolding calibration_levels_of_values [OF rs ne]
    by (simp add: py_round1_def round_half_even_def)
qed

lemma odd_recording_not_silent: "\<not> list_all (\<lambda>r. r = Fin 0) [NaN, PInf, NInf]"
  by simp

theorem calibrate_suggested_threshold_witness:
  "(0 :: int) \<noteq> -1 \<and> replicate 88200 (Fin (1 / 2)) \<noteq> [] \<and>
   \<not> list_all (\<lambda>r. r = Fin 0) (replicate 88200 (Fin (1 / 2))) \<and>
   calibrate 0 (Inr (replicate 88200 (Fin (1 / 2)))) \<lparr> dialogs = [], scale_sets = [] \<rparr> =
     Inr \<lparr> dialogs = [Showinfo ''Calibration Complete''
                        (Calibration_successful (20 * log 10 (1 / 2)) 4)],
           scale_sets = [4] \<rparr> \<and>
   [NaN, PInf, NInf] \<noteq> [] \<and> \<not> list_all (\<lambda>r. r = Fin 0) [NaN, PInf, NInf] \<and>
   calibrate 0 (Inr [NaN, PInf, NInf]) \<lparr> dialogs = [], scale_sets = [] \<rparr> =
     Inr \<lparr> dialogs = [Showinfo ''Calibration Complete'' (Calibration_successful 0 10)],
           scale_sets = [10] \<rparr>"
proof -
  let ?p = "\<lparr> dialogs = [], scale_sets = [] \<rparr>"
  have 1: "(0 :: int) \<noteq> -1" by simp
  have 2: "replicate 88200 (Fin (1 / 2)) \<noteq> []" by simp
  note 3 = half_scale_not_silent
  have 4: "[NaN, PInf, NInf] \<noteq> []" by simp
  note 5 = odd_recording_not_silent
  obtain ambient new_value where
    l: "calibration_levels (replicate 88200 (Fin (1 / 2))) = Inr (ambient, new_value)" and
    c: "calibrate 0 (Inr (replicate 88200 (Fin (1 / 2)))) ?p =
       Inr (?p\<lparr> scale_sets := scale_sets ?p @ [new_value],
               dialogs := dialogs ?p @
                 [Showinfo ''Calibration Complete''
                    (Calibration_successful ambient new_value)] \<rparr>)"
    using calibrate_suggested_threshold [OF 1 2 3, of ?p]
    by blast
  from l half_scale_levels have q: "ambient = 20 * log 10 (1 / 2)" "new_value = 4"
    by simp_all
  obtain ambient' new_value' where
    l': "calibration_levels [NaN, PInf, NInf] = Inr (ambient', new_value')" and
    c': "calibrate 0 (Inr [NaN, PInf, NInf]) ?p =
       Inr (?p\<lparr> scale_sets := scale_sets ?p @ [new_value'],
               dialogs := dialogs ?p @
                 [Showinfo ''Calibration Complete''
                    (Calibration_successful ambient' new_value')] \<rparr>)"
    using calibrate_suggested_threshold [OF 1 4 5, of ?p]
    by blast
  from l' odd_recording_levels have q': "ambient' = 0" "new_value' = 10"
    by simp_all
  from c c' 1 2 3 4 5 show ?thesis unfolding q q' by simp
qed

end
